theory Spec2Isabelle
  imports Main
begin

section \<open>Python values\<close>

text \<open>
  The inventory script of \<^verbatim>\<open>src/inventory.py\<close> reads decoded JSON and builds the
  object it hands to \<^verbatim>\<open>json.dumps\<close>. Both are Python values: \<^verbatim>\<open>None\<close>, booleans,
  integers, strings, lists and dictionaries. A dictionary is an association list in
  insertion order; the dictionaries Python builds have keys that differ pairwise, and a
  lookup takes the first entry of the key. JSON numbers are taken to be integers
  (identifiers and VLAN ids are); floating point numbers are left out.
\<close>

datatype pyval =
    PNone
  | PBool bool
  | PInt int
  | PStr string
  | PList "pyval list"
  | PDict "(pyval \<times> pyval) list"

text \<open>The exceptions the script can raise, none of which it catches.\<close>

datatype error =
    HTTPError
  | ConnectionError
  | JSONDecodeError
  | KeyError
  | TypeError
  | AttributeError
  | IndexError

text \<open>Sequencing of computations that may raise: the first exception ends the computation.\<close>

definition and_then :: "error + 'a \<Rightarrow> ('a \<Rightarrow> error + 'b) \<Rightarrow> error + 'b" where
  "and_then m f = (case m of Inl e \<Rightarrow> Inl e | Inr v \<Rightarrow> f v)"

text \<open>A \<^verbatim>\<open>for\<close> loop that appends one computed value per element to a fresh list.\<close>

primrec for_each :: "('a \<Rightarrow> error + 'b) \<Rightarrow> 'a list \<Rightarrow> error + 'b list" where
  "for_each f [] = Inr []"
| "for_each f (x # xs) =
     and_then (f x) (\<lambda>y. and_then (for_each f xs) (\<lambda>ys. Inr (y # ys)))"

text \<open>Truth value of an object in a condition (\<^verbatim>\<open>if x:\<close>).\<close>

fun truthy :: "pyval \<Rightarrow> bool" where
  "truthy PNone = False"
| "truthy (PBool b) = b"
| "truthy (PInt n) = (n \<noteq> 0)"
| "truthy (PStr s) = (s \<noteq> [])"
| "truthy (PList xs) = (xs \<noteq> [])"
| "truthy (PDict kvs) = (kvs \<noteq> [])"

text \<open>
  Dictionary keys must be hashable: lists and dictionaries are not. Keys are compared
  with \<^verbatim>\<open>==\<close>, under which \<^verbatim>\<open>True\<close> is \<^verbatim>\<open>1\<close> and \<^verbatim>\<open>False\<close> is \<^verbatim>\<open>0\<close>.
\<close>

fun hashable :: "pyval \<Rightarrow> bool" where
  "hashable (PList xs) = False"
| "hashable (PDict kvs) = False"
| "hashable v = True"

fun key_norm :: "pyval \<Rightarrow> pyval" where
  "key_norm (PBool b) = PInt (if b then 1 else 0)"
| "key_norm v = v"

definition key_eq :: "pyval \<Rightarrow> pyval \<Rightarrow> bool" where
  "key_eq a b = (key_norm a = key_norm b)"

fun dict_get :: "(pyval \<times> pyval) list \<Rightarrow> pyval \<Rightarrow> pyval option" where
  "dict_get [] k = None"
| "dict_get ((k', v) # kvs) k = (if key_eq k' k then Some v else dict_get kvs k)"

text \<open>
  \<^verbatim>\<open>d[k] = v\<close> on a dictionary: an existing key keeps its place (and its first spelling)
  and takes the new value, a new key goes to the end.
\<close>

fun dict_set :: "(pyval \<times> pyval) list \<Rightarrow> pyval \<Rightarrow> pyval \<Rightarrow> (pyval \<times> pyval) list" where
  "dict_set [] k v = [(k, v)]"
| "dict_set ((k', v') # kvs) k v =
     (if key_eq k' k then (k', v) # kvs else (k', v') # dict_set kvs k v)"

definition setitem ::
  "(pyval \<times> pyval) list \<Rightarrow> pyval \<Rightarrow> pyval \<Rightarrow> error + (pyval \<times> pyval) list" where
  "setitem d k v = (if hashable k then Inr (dict_set d k v) else Inl TypeError)"

text \<open>
  \<^verbatim>\<open>obj['key']\<close> with a string key, the only subscription the script applies to decoded
  JSON: a dictionary without the key raises \<^verbatim>\<open>KeyError\<close>; lists and strings take integer
  indices only and the other values are not subscriptable, all \<^verbatim>\<open>TypeError\<close>.
\<close>

fun getitem :: "pyval \<Rightarrow> string \<Rightarrow> error + pyval" where
  "getitem (PDict kvs) k =
     (case dict_get kvs (PStr k) of None \<Rightarrow> Inl KeyError | Some v \<Rightarrow> Inr v)"
| "getitem v k = Inl TypeError"

text \<open>\<^verbatim>\<open>obj[k1][k2]...\<close>, used to read the produced document.\<close>

fun path :: "pyval \<Rightarrow> string list \<Rightarrow> error + pyval" where
  "path v [] = Inr v"
| "path v (k # ks) = and_then (getitem v k) (\<lambda>w. path w ks)"

text \<open>
  The elements a \<^verbatim>\<open>for\<close> loop visits: those of a list, the keys of a dictionary, the
  one-character strings of a string; the other values are not iterable.
\<close>

fun py_iter :: "pyval \<Rightarrow> error + pyval list" where
  "py_iter (PList xs) = Inr xs"
| "py_iter (PDict kvs) = Inr (map fst kvs)"
| "py_iter (PStr s) = Inr (map (\<lambda>c. PStr [c]) s)"
| "py_iter v = Inl TypeError"


text \<open>
  \<^verbatim>\<open>s.split(c)\<close> for a one-character separator: the segments between the separators,
  never an empty list. Only strings have the method.
\<close>

fun split :: "char \<Rightarrow> string \<Rightarrow> string list" where
  "split c [] = [[]]"
| "split c (x # xs) =
     (if x = c then [] # split c xs
      else (case split c xs of [] \<Rightarrow> [[x]] | w # ws \<Rightarrow> (x # w) # ws))"

fun py_split :: "pyval \<Rightarrow> char \<Rightarrow> error + string list" where
  "py_split (PStr s) c = Inr (split c s)"
| "py_split v c = Inl AttributeError"

text \<open>\<^verbatim>\<open>xs[0]\<close>.\<close>

fun first :: "'a list \<Rightarrow> error + 'a" where
  "first [] = Inl IndexError"
| "first (x # xs) = Inr x"

text \<open>
  \<^verbatim>\<open>json.dumps\<close> writes the key of a dictionary member as a string: a string as it is,
  \<^verbatim>\<open>None\<close> as \<^verbatim>\<open>null\<close>, \<^verbatim>\<open>True\<close> and \<^verbatim>\<open>False\<close> as \<^verbatim>\<open>true\<close> and \<^verbatim>\<open>false\<close>, an integer in decimal.
  It writes the members in their order and leaves the values as they are.
\<close>

fun decimal :: "nat \<Rightarrow> string" where
  "decimal n =
     (if n < 10 then [char_of (48 + n)]
      else decimal (n div 10) @ [char_of (48 + n mod 10)])"

fun dumps_key :: "pyval \<Rightarrow> error + string" where
  "dumps_key (PStr s) = Inr s"
| "dumps_key PNone = Inr ''null''"
| "dumps_key (PBool b) = Inr (if b then ''true'' else ''false'')"
| "dumps_key (PInt i) = Inr (if i < 0 then CHR ''-'' # decimal (nat (- i)) else decimal (nat i))"
| "dumps_key v = Inl TypeError"

section \<open>The source system's API\<close>

text \<open>
  The four endpoints the script reads, relative to \<^verbatim>\<open>http://netbox01.lab:80/api/\<close>:
  \<^verbatim>\<open>dcim/devices\<close>, \<^verbatim>\<open>dcim/devices/{0}\<close>, \<^verbatim>\<open>dcim/interfaces/?device_id={0}\<close> and
  \<^verbatim>\<open>ipam/ip-addresses/?interface_id={0}\<close>, each kept with the value formatted into it.
\<close>

datatype endpoint =
    Devices
  | Device pyval
  | Interfaces pyval
  | IpAddresses pyval

text \<open>
  What \<^verbatim>\<open>_api_call\<close> looks at in a response: its status code and its body decoded as
  JSON, if it decodes.
\<close>

record response =
  status_code :: nat
  json_body :: "pyval option"

text \<open>
  The server answers the n-th GET of a run (counted from 0) at an endpoint with a
  response, or not at all (\<open>None\<close>: the transport raises \<^verbatim>\<open>ConnectionError\<close>). Its
  answers may change from one call to the next.
\<close>

type_synonym server = "nat \<Rightarrow> endpoint \<Rightarrow> response option"

text \<open>
  \<^verbatim>\<open>Response.raise_for_status\<close> of the \<^verbatim>\<open>requests\<close> library raises \<^verbatim>\<open>HTTPError\<close> for the
  client and server error statuses, 400 to 599; \<^verbatim>\<open>Response.json\<close> raises when the body
  is not JSON.
\<close>

definition raise_for_status :: "response \<Rightarrow> error + unit" where
  "raise_for_status r =
     (if 400 \<le> status_code r \<and> status_code r < 600 then Inl HTTPError else Inr ())"

definition json :: "response \<Rightarrow> error + pyval" where
  "json r = (case json_body r of None \<Rightarrow> Inl JSONDecodeError | Some v \<Rightarrow> Inr v)"

section \<open>Computations that call the API\<close>

text \<open>
  A method that calls the API takes the list of the calls made so far and returns its
  value or the exception it raised, with the calls extended by its own.
\<close>

type_synonym 'a io = "endpoint list \<Rightarrow> (error + 'a) \<times> endpoint list"

definition io_lift :: "error + 'a \<Rightarrow> 'a io" where
  "io_lift m = (\<lambda>calls. (m, calls))"

definition io_bind :: "'a io \<Rightarrow> ('a \<Rightarrow> 'b io) \<Rightarrow> 'b io" where
  "io_bind m f =
     (\<lambda>calls. case m calls of
        (Inl e, calls') \<Rightarrow> (Inl e, calls')
      | (Inr v, calls') \<Rightarrow> f v calls')"

primrec io_for_each :: "('a \<Rightarrow> 'b io) \<Rightarrow> 'a list \<Rightarrow> 'b list io" where
  "io_for_each f [] = io_lift (Inr [])"
| "io_for_each f (x # xs) =
     io_bind (f x) (\<lambda>y. io_bind (io_for_each f xs) (\<lambda>ys. io_lift (Inr (y # ys))))"

section \<open>NetboxInventory\<close>

text \<open>
  The attributes of \<^verbatim>\<open>self\<close> the methods use: the token, and the session through which the
  server answers. \<^verbatim>\<open>self.headers\<close> exists only when the token is a non-empty string.
  The methods keep their names, without the leading underscore.
\<close>

record netbox =
  netbox_token :: "string option"
  session :: server

definition has_headers :: "netbox \<Rightarrow> bool" where
  "has_headers self = (case netbox_token self of None \<Rightarrow> False | Some t \<Rightarrow> t \<noteq> [])"

text \<open>
  \<^verbatim>\<open>_api_call\<close>: reading \<^verbatim>\<open>self.headers\<close> raises \<^verbatim>\<open>AttributeError\<close> before any request when
  the attribute was never set; otherwise one GET, then \<^verbatim>\<open>raise_for_status\<close>, then the
  decoded body.
\<close>

definition api_call :: "netbox \<Rightarrow> endpoint \<Rightarrow> pyval io" where
  "api_call self api_endpoint =
     (\<lambda>calls.
        if \<not> has_headers self then (Inl AttributeError, calls)
        else (case session self (length calls) api_endpoint of
                None \<Rightarrow> (Inl ConnectionError, calls @ [api_endpoint])
              | Some response \<Rightarrow>
                  (and_then (raise_for_status response) (\<lambda>_. json response),
                   calls @ [api_endpoint])))"

definition device_list :: "netbox \<Rightarrow> pyval io" where
  "device_list self = api_call self Devices"

definition device_interfaces :: "netbox \<Rightarrow> pyval \<Rightarrow> pyval io" where
  "device_interfaces self device_id =
     io_bind (api_call self (Interfaces device_id))
       (\<lambda>interfaces. io_lift (getitem interfaces ''results''))"

definition interface_ip :: "netbox \<Rightarrow> pyval \<Rightarrow> pyval io" where
  "interface_ip self interface_id =
     io_bind (api_call self (IpAddresses interface_id))
       (\<lambda>interfaces_ip. io_lift (getitem interfaces_ip ''results''))"

text \<open>The part of \<^verbatim>\<open>_device_primary_ip\<close> after the API call.\<close>

definition primary_ip_of :: "pyval \<Rightarrow> error + pyval" where
  "primary_ip_of primary_ip =
     and_then (getitem primary_ip ''primary_ip'') (\<lambda>p.
       if truthy p then
         and_then (getitem p ''address'') (\<lambda>address.
         and_then (py_split address CHR ''/'') (\<lambda>segments.
         and_then (first segments) (\<lambda>s. Inr (PStr s))))
       else Inr PNone)"

definition device_primary_ip :: "netbox \<Rightarrow> pyval \<Rightarrow> pyval io" where
  "device_primary_ip self device_id =
     io_bind (api_call self (Device device_id))
       (\<lambda>primary_ip. io_lift (primary_ip_of primary_ip))"

text \<open>The part of \<^verbatim>\<open>_device_ssh_port\<close> after the API call.\<close>

definition ssh_port_of :: "pyval \<Rightarrow> error + pyval" where
  "ssh_port_of port_number =
     and_then (getitem port_number ''custom_fields'') (\<lambda>custom_fields.
       if truthy custom_fields then getitem custom_fields ''ASN'' else Inr PNone)"

definition device_ssh_port :: "netbox \<Rightarrow> pyval \<Rightarrow> pyval io" where
  "device_ssh_port self device_id =
     io_bind (api_call self (Device device_id))
       (\<lambda>port_number. io_lift (ssh_port_of port_number))"

text \<open>The body of the loop of \<^verbatim>\<open>_process_interface_vlans\<close>, for one interface.\<close>

definition vlan_map :: "pyval \<Rightarrow> error + pyval" where
  "vlan_map interface =
     and_then (getitem interface ''tagged_vlans'') (\<lambda>tagged_vids.
     and_then
       (if truthy tagged_vids then
          and_then (py_iter tagged_vids)
            (for_each (\<lambda>tagged_vid. getitem tagged_vid ''vid''))
        else Inr []) (\<lambda>tagged_vlan_list.
     and_then (getitem interface ''untagged_vlan'') (\<lambda>untagged_vlan.
     and_then
       (if truthy untagged_vlan then getitem untagged_vlan ''vid'' else Inr PNone)
       (\<lambda>untagged_vid.
     and_then (getitem interface ''name'') (\<lambda>name.
     and_then (getitem interface ''id'') (\<lambda>int_id.
       Inr (PDict [(PStr ''interface'', name),
                   (PStr ''int_id'', int_id),
                   (PStr ''untagged_vlan'', untagged_vid),
                   (PStr ''tagged_vlans'', PList tagged_vlan_list)])))))))"

definition process_interface_vlans :: "netbox \<Rightarrow> pyval \<Rightarrow> pyval list io" where
  "process_interface_vlans self device_id =
     io_bind (device_interfaces self device_id) (\<lambda>interfaces.
       io_lift (and_then (py_iter interfaces) (for_each vlan_map)))"

text \<open>The body of the inner loop of \<^verbatim>\<open>_process_devices\<close>, for one interface.\<close>

definition interface_hash :: "netbox \<Rightarrow> pyval \<Rightarrow> pyval io" where
  "interface_hash self interface =
     io_bind (io_lift (getitem interface ''name'')) (\<lambda>int_name.
     io_bind (io_lift (getitem interface ''id'')) (\<lambda>int_id.
     io_bind (interface_ip self int_id) (\<lambda>ip_addr.
       io_lift (Inr (PDict [(PStr ''interface_name'', int_name),
                            (PStr ''interface_id'', int_id),
                            (PStr ''ip_address'', ip_addr)])))))"

text \<open>
  The body of the outer loop of \<^verbatim>\<open>_process_devices\<close>, for one device. The source reads
  \<^verbatim>\<open>device['id']\<close> again at each use; the value is the same each time.
\<close>

definition device_hash :: "netbox \<Rightarrow> pyval \<Rightarrow> pyval io" where
  "device_hash self device =
     io_bind (io_lift (getitem device ''id'')) (\<lambda>device_id.
     io_bind (device_interfaces self device_id) (\<lambda>interfaces.
     io_bind (process_interface_vlans self device_id) (\<lambda>vlans.
     io_bind (device_primary_ip self device_id) (\<lambda>device_ip.
     io_bind (device_ssh_port self device_id) (\<lambda>ssh_port.
     io_bind (io_lift (py_iter interfaces)) (\<lambda>interface_seq.
     io_bind (io_for_each (interface_hash self) interface_seq) (\<lambda>int_list.
     io_bind (io_lift (getitem device ''name'')) (\<lambda>name.
       io_lift (Inr (PDict [(PStr ''id'', device_id),
                            (PStr ''ansible_ssh_host'', device_ip),
                            (PStr ''ansible_ssh_port'', ssh_port),
                            (PStr ''name'', name),
                            (PStr ''interfaces'', PList int_list),
                            (PStr ''vlans'', PList vlans)]))))))))))"

definition process_devices :: "netbox \<Rightarrow> pyval list io" where
  "process_devices self =
     io_bind (device_list self) (\<lambda>devices.
     io_bind (io_lift (and_then (getitem devices ''results'') py_iter)) (\<lambda>device_seq.
       io_for_each (device_hash self) device_seq))"

text \<open>The dictionary \<^verbatim>\<open>create_inventory_output\<close> stores for one device.\<close>

definition hostvars_entry :: "pyval \<Rightarrow> error + pyval" where
  "hostvars_entry device =
     and_then (getitem device ''ansible_ssh_host'') (\<lambda>ansible_host.
     and_then (getitem device ''ansible_ssh_port'') (\<lambda>ansible_port.
     and_then (getitem device ''interfaces'') (\<lambda>interfaces.
     and_then (getitem device ''vlans'') (\<lambda>vlans.
       Inr (PDict [(PStr ''ansible_host'', ansible_host),
                   (PStr ''ansible_port'', ansible_port),
                   (PStr ''interfaces'', interfaces),
                   (PStr ''vlans'', vlans)])))))"

text \<open>
  The loop of \<^verbatim>\<open>create_inventory_output\<close> over the devices, on the two objects it
  mutates: the \<^verbatim>\<open>hostvars\<close> dictionary and the \<^verbatim>\<open>hosts\<close> list.
\<close>

fun inventory_loop ::
  "pyval list \<Rightarrow> (pyval \<times> pyval) list \<Rightarrow> pyval list \<Rightarrow>
   error + ((pyval \<times> pyval) list \<times> pyval list)" where
  "inventory_loop [] hostvars hosts = Inr (hostvars, hosts)"
| "inventory_loop (device # devices) hostvars hosts =
     and_then (getitem device ''name'') (\<lambda>name.
     and_then (hostvars_entry device) (\<lambda>entry.
     and_then (setitem hostvars name entry) (\<lambda>hostvars'.
       inventory_loop devices hostvars' (hosts @ [name]))))"

definition all_vars :: pyval where
  "all_vars =
     PDict [(PStr ''ansible_ssh_user'', PStr ''vagrant''),
            (PStr ''ansible_network_os'', PStr ''eos''),
            (PStr ''ansible_ssh_private_key_file'',
             PStr ''~/.vagrant.d/insecure_private_key'')]"

definition create_inventory_output :: "pyval list \<Rightarrow> error + pyval" where
  "create_inventory_output devices =
     and_then (inventory_loop devices [] []) (\<lambda>(hostvars, hosts).
       Inr (PDict [(PStr ''all'',
                     PDict [(PStr ''hosts'', PList hosts), (PStr ''vars'', all_vars)]),
                   (PStr ''_meta'', PDict [(PStr ''hostvars'', PDict hostvars)])]))"

definition empty_inventory :: pyval where
  "empty_inventory = PDict [(PStr ''_meta'', PDict [(PStr ''hostvars'', PDict [])])]"

text \<open>
  The parsed command line: \<^verbatim>\<open>--list\<close> is a flag, \<^verbatim>\<open>--host\<close> takes a string and is \<^verbatim>\<open>None\<close>
  when not given.
\<close>

record args =
  arg_list :: bool
  arg_host :: "string option"

text \<open>
  What a run leaves behind: the exception that ended it, if any; the objects printed
  (each the argument of \<^verbatim>\<open>json.dumps\<close>); the API calls made, in order.
\<close>

record outcome =
  raised :: "error option"
  stdout :: "pyval list"
  calls :: "endpoint list"

text \<open>
  The constructor, which does all the work. Both branches without \<^verbatim>\<open>--list\<close> assign the
  empty inventory; the single \<^verbatim>\<open>print\<close> is reached only when nothing was raised.
\<close>

definition NetboxInventory :: "netbox \<Rightarrow> args \<Rightarrow> outcome" where
  "NetboxInventory self a =
     (if arg_list a then
        (case io_bind (process_devices self)
                (\<lambda>devices. io_lift (create_inventory_output devices)) [] of
           (Inl e, cs) \<Rightarrow> \<lparr>raised = Some e, stdout = [], calls = cs\<rparr>
         | (Inr inventory, cs) \<Rightarrow> \<lparr>raised = None, stdout = [inventory], calls = cs\<rparr>)
      else if (case arg_host a of None \<Rightarrow> False | Some h \<Rightarrow> h \<noteq> []) then
        \<lparr>raised = None, stdout = [empty_inventory], calls = []\<rparr>
      else
        \<lparr>raised = None, stdout = [empty_inventory], calls = []\<rparr>)"

text \<open>\<^verbatim>\<open>main\<close>, with the token it hard-codes, against a given server.\<close>

definition main :: "server \<Rightarrow> args \<Rightarrow> outcome" where
  "main srv a =
     NetboxInventory
       \<lparr>netbox_token = Some ''0123456789abcdef0123456789abcdefghijh231'', session = srv\<rparr> a"

section \<open>Failing fast\<close>

text \<open>
  A reply with an HTTP error status, and the property of a computation that it stops at
  the first such reply: whatever calls it adds to those made before, only the last of
  them can have met an error status, and then the computation raised \<^verbatim>\<open>HTTPError\<close>.
\<close>

definition error_reply :: "response option \<Rightarrow> bool" where
  "error_reply reply =
     (case reply of None \<Rightarrow> False
      | Some r \<Rightarrow> 400 \<le> status_code r \<and> status_code r < 600)"

definition fail_fast :: "netbox \<Rightarrow> 'a io \<Rightarrow> bool" where
  "fail_fast self p =
     (\<forall>cs. \<exists>new. snd (p cs) = cs @ new \<and>
        (\<forall>k < length new. error_reply (session self (length cs + k) (new ! k)) \<longrightarrow>
           Suc k = length new \<and> fst (p cs) = Inl HTTPError))"

section \<open>Interfaces and VLAN entries side by side\<close>

text \<open>
  A dictionary whose \<^verbatim>\<open>interfaces\<close> and \<^verbatim>\<open>vlans\<close> are lists of one length that agree, index
  by index, on the interface's id and name.
\<close>

definition aligned :: "pyval \<Rightarrow> bool" where
  "aligned e =
     (\<exists>interfaces vlans.
        getitem e ''interfaces'' = Inr (PList interfaces) \<and>
        getitem e ''vlans'' = Inr (PList vlans) \<and>
        length interfaces = length vlans \<and>
        (\<forall>i < length interfaces. \<exists>int_id int_name.
           getitem (interfaces ! i) ''interface_id'' = Inr int_id \<and>
           getitem (vlans ! i) ''int_id'' = Inr int_id \<and>
           getitem (interfaces ! i) ''interface_name'' = Inr int_name \<and>
           getitem (vlans ! i) ''interface'' = Inr int_name))"

section \<open>Servers and device records used as concrete inputs\<close>

definition ok :: "pyval \<Rightarrow> response option" where
  "ok v = Some \<lparr>status_code = 200, json_body = Some v\<rparr>"

definition not_found :: "response option" where
  "not_found = Some \<lparr>status_code = 404, json_body = None\<rparr>"

definition list_args :: args where
  "list_args = \<lparr>arg_list = True, arg_host = None\<rparr>"

text \<open>
  One device \<^verbatim>\<open>sw1\<close> with one interface \<^verbatim>\<open>eth0\<close> (tagged VLAN 100, untagged VLAN 1), one
  address bound to the interface, a primary address and the custom field \<^verbatim>\<open>ASN\<close>.
\<close>

definition sw1_server :: server where
  "sw1_server n e =
     (if e = Devices then
        ok (PDict [(PStr ''results'',
          PList [PDict [(PStr ''id'', PInt 1), (PStr ''name'', PStr ''sw1'')]])])
      else if e = Device (PInt 1) then
        ok (PDict
          [(PStr ''primary_ip'', PDict [(PStr ''address'', PStr ''192.0.2.1/24'')]),
           (PStr ''custom_fields'', PDict [(PStr ''ASN'', PStr ''22'')])])
      else if e = Interfaces (PInt 1) then
        ok (PDict [(PStr ''results'',
          PList [PDict [(PStr ''id'', PInt 10), (PStr ''name'', PStr ''eth0''),
                        (PStr ''tagged_vlans'', PList [PDict [(PStr ''vid'', PInt 100)]]),
                        (PStr ''untagged_vlan'', PDict [(PStr ''vid'', PInt 1)])]])])
      else if e = IpAddresses (PInt 10) then
        ok (PDict [(PStr ''results'',
          PList [PDict [(PStr ''address'', PStr ''192.0.2.5/24'')]])])
      else not_found)"

text \<open>A device record as \<^verbatim>\<open>_process_devices\<close> builds it, without interfaces.\<close>

definition plain_device :: "int \<Rightarrow> string \<Rightarrow> pyval \<Rightarrow> pyval" where
  "plain_device i name ip =
     PDict [(PStr ''id'', PInt i),
            (PStr ''ansible_ssh_host'', ip),
            (PStr ''ansible_ssh_port'', PNone),
            (PStr ''name'', PStr name),
            (PStr ''interfaces'', PList []),
            (PStr ''vlans'', PList [])]"

definition plain_entry :: "pyval \<Rightarrow> pyval" where
  "plain_entry ip =
     PDict [(PStr ''ansible_host'', ip), (PStr ''ansible_port'', PNone),
            (PStr ''interfaces'', PList []), (PStr ''vlans'', PList [])]"

definition sw1_twice :: "pyval list" where
  "sw1_twice = [plain_device 1 ''sw1'' PNone, plain_device 2 ''sw1'' (PStr ''10.0.0.2'')]"


definition host_args :: args where
  "host_args = \<lparr>arg_list = False, arg_host = Some ''sw1''\<rparr>"

definition no_server :: server where
  "no_server n e = None"

text \<open>\<^verbatim>\<open>self\<close> as \<^verbatim>\<open>main\<close> sets it up.\<close>

definition lab :: "server \<Rightarrow> netbox" where
  "lab srv =
     \<lparr>netbox_token = Some ''0123456789abcdef0123456789abcdefghijh231'', session = srv\<rparr>"

definition masked_server :: server where
  "masked_server n e =
     (if e = Device (PInt 7) then
        ok (PDict [(PStr ''primary_ip'', PDict [(PStr ''address'', PStr ''10.0.0.1/24'')]),
                   (PStr ''custom_fields'', PDict [])])
      else not_found)"

definition bare_interface :: "int \<Rightarrow> string \<Rightarrow> pyval \<Rightarrow> pyval" where
  "bare_interface i name tagged =
     PDict [(PStr ''id'', PInt i), (PStr ''name'', PStr name),
            (PStr ''tagged_vlans'', tagged), (PStr ''untagged_vlan'', PNone)]"

text \<open>
  One device \<^verbatim>\<open>sw1\<close> without a primary address and with an empty custom-field block, whose
  two interfaces carry no VLAN.
\<close>

definition bare_server :: server where
  "bare_server n e =
     (if e = Devices then
        ok (PDict [(PStr ''results'',
          PList [PDict [(PStr ''id'', PInt 1), (PStr ''name'', PStr ''sw1'')]])])
      else if e = Device (PInt 1) then
        ok (PDict [(PStr ''primary_ip'', PNone), (PStr ''custom_fields'', PDict [])])
      else if e = Interfaces (PInt 1) then
        ok (PDict [(PStr ''results'',
          PList [bare_interface 10 ''eth0'' (PList []), bare_interface 11 ''eth1'' PNone])])
      else if e = IpAddresses (PInt 10) \<or> e = IpAddresses (PInt 11) then
        ok (PDict [(PStr ''results'', PList [])])
      else not_found)"

text \<open>
  One device \<^verbatim>\<open>sw1\<close> without interfaces, whose custom-field block holds a field other than
  \<^verbatim>\<open>ASN\<close>.
\<close>

definition other_field_server :: server where
  "other_field_server n e =
     (if e = Devices then
        ok (PDict [(PStr ''results'',
          PList [PDict [(PStr ''id'', PInt 1), (PStr ''name'', PStr ''sw1'')]])])
      else if e = Device (PInt 1) then
        ok (PDict [(PStr ''primary_ip'', PNone),
                   (PStr ''custom_fields'', PDict [(PStr ''rack_role'', PStr ''core'')])])
      else if e = Interfaces (PInt 1) then
        ok (PDict [(PStr ''results'', PList [])])
      else not_found)"

text \<open>The device list is answered with status 300 and a JSON body.\<close>

definition multiple_choices_server :: server where
  "multiple_choices_server n e =
     (if e = Devices then
        Some \<lparr>status_code = 300, json_body = Some (PDict [(PStr ''results'', PList [])])\<rparr>
      else not_found)"

text \<open>Two devices; every call after the device list is answered with status 503.\<close>

definition failing_interfaces_server :: server where
  "failing_interfaces_server n e =
     (if e = Devices then
        ok (PDict [(PStr ''results'',
          PList [PDict [(PStr ''id'', PInt 1), (PStr ''name'', PStr ''sw1'')],
                 PDict [(PStr ''id'', PInt 2), (PStr ''name'', PStr ''sw2'')]])])
      else Some \<lparr>status_code = 503, json_body = Some (PDict [(PStr ''results'', PList [])])\<rparr>)"

text \<open>Two devices both named \<^verbatim>\<open>sw1\<close>: the first without a primary address, the second with one.\<close>

definition twins_server :: server where
  "twins_server n e =
     (if e = Devices then
        ok (PDict [(PStr ''results'',
          PList [PDict [(PStr ''id'', PInt 1), (PStr ''name'', PStr ''sw1'')],
                 PDict [(PStr ''id'', PInt 2), (PStr ''name'', PStr ''sw1'')]])])
      else if e = Device (PInt 1) then
        ok (PDict [(PStr ''primary_ip'', PNone), (PStr ''custom_fields'', PDict [])])
      else if e = Device (PInt 2) then
        ok (PDict [(PStr ''primary_ip'', PDict [(PStr ''address'', PStr ''10.0.0.2/24'')]),
                   (PStr ''custom_fields'', PDict [])])
      else if e = Interfaces (PInt 1) \<or> e = Interfaces (PInt 2) then
        ok (PDict [(PStr ''results'', PList [])])
      else not_found)"

text \<open>The document a run against that server prints.\<close>

definition twins_doc :: pyval where
  "twins_doc =
     PDict [(PStr ''all'',
             PDict [(PStr ''hosts'', PList [PStr ''sw1'', PStr ''sw1'']),
                    (PStr ''vars'', all_vars)]),
            (PStr ''_meta'',
             PDict [(PStr ''hostvars'',
               PDict [(PStr ''sw1'',
                 PDict [(PStr ''ansible_host'', PStr ''10.0.0.2''),
                        (PStr ''ansible_port'', PNone),
                        (PStr ''interfaces'', PList []),
                        (PStr ''vlans'', PList [])])])])]"

text \<open>The device \<^verbatim>\<open>sw1\<close> as the device list returns it.\<close>

definition sw1_listed :: pyval where
  "sw1_listed = PDict [(PStr ''id'', PInt 1), (PStr ''name'', PStr ''sw1'')]"

text \<open>
  One device \<^verbatim>\<open>sw1\<close> without a primary address, whose custom field \<^verbatim>\<open>ASN\<close> is null, with
  one interface that carries VLANs and one that carries none.
\<close>

definition mixed_server :: server where
  "mixed_server n e =
     (if e = Devices then ok (PDict [(PStr ''results'', PList [sw1_listed])])
      else if e = Device (PInt 1) then
        ok (PDict [(PStr ''primary_ip'', PNone),
                   (PStr ''custom_fields'', PDict [(PStr ''ASN'', PNone)])])
      else if e = Interfaces (PInt 1) then
        ok (PDict [(PStr ''results'',
          PList [PDict [(PStr ''id'', PInt 10), (PStr ''name'', PStr ''eth0''),
                        (PStr ''tagged_vlans'', PList [PDict [(PStr ''vid'', PInt 100)]]),
                        (PStr ''untagged_vlan'', PDict [(PStr ''vid'', PInt 1)])],
                 bare_interface 11 ''eth1'' PNone])])
      else if e = IpAddresses (PInt 10) \<or> e = IpAddresses (PInt 11) then
        ok (PDict [(PStr ''results'', PList [])])
      else not_found)"

section \<open>Basic facts about the Python operations\<close>

lemma and_then_simps [simp]:
  "and_then (Inl e) f = Inl e" "and_then (Inr v) f = f v"
  by (simp_all add: and_then_def)

lemma and_then_Inr_iff: "and_then m f = Inr y \<longleftrightarrow> (\<exists>v. m = Inr v \<and> f v = Inr y)"
  by (cases m) simp_all

lemma for_each_Inr_iff:
  "for_each f xs = Inr ys \<longleftrightarrow> list_all2 (\<lambda>x y. f x = Inr y) xs ys"
proof (induction xs arbitrary: ys)
  case Nil
  show ?case by auto
next
  case (Cons x xs)
  show ?case
    by (cases ys) (auto simp: and_then_Inr_iff Cons.IH)
qed

lemma getitem_truthy: "getitem p k = Inr v \<Longrightarrow> truthy p"
  by (cases p) (auto split: option.splits)

lemma split_takeWhile: "split c s \<noteq> [] \<and> hd (split c s) = takeWhile (\<lambda>x. x \<noteq> c) s"
  by (induction s) (auto split: list.splits)

lemma first_split: "first (split c s) = Inr (takeWhile (\<lambda>x. x \<noteq> c) s)"
  using split_takeWhile [of c s] by (cases "split c s") auto

lemma key_eq_refl [simp]: "key_eq k k"
  by (simp add: key_eq_def)

lemma dict_get_dict_set:
  "dict_get (dict_set d k v) k' = (if key_eq k k' then Some v else dict_get d k')"
  by (induction d) (auto simp: key_eq_def)

lemma keys_dict_set:
  "key_norm ` fst ` set (dict_set d k v) = insert (key_norm k) (key_norm ` fst ` set d)"
proof (induction d)
  case Nil
  show ?case by simp
next
  case (Cons p d)
  obtain k' v' where p: "p = (k', v')" by (cases p)
  show ?case
  proof (cases "key_eq k' k")
    case True
    then show ?thesis using p by (auto simp: key_eq_def)
  next
    case False
    then show ?thesis using p Cons.IH by auto
  qed
qed


lemma in_dict_set:
  "(a, b) \<in> set (dict_set d k v) \<Longrightarrow>
     (a, b) \<in> set d \<or> (b = v \<and> (a = k \<or> a \<in> fst ` set d))"
proof (induction d)
  case Nil
  then show ?case by simp
next
  case (Cons p d)
  obtain k' v' where p: "p = (k', v')" by (cases p)
  show ?case
  proof (cases "key_eq k' k")
    case True
    with Cons.prems p show ?thesis by auto
  next
    case False
    with Cons.prems p have "(a, b) = (k', v') \<or> (a, b) \<in> set (dict_set d k v)" by simp
    then show ?thesis
    proof
      assume "(a, b) = (k', v')"
      then show ?thesis using p by simp
    next
      assume "(a, b) \<in> set (dict_set d k v)"
      from Cons.IH [OF this] show ?thesis by auto
    qed
  qed
qed

section \<open>Storing a sequence of entries in a dictionary\<close>

lemma dict_get_fold_last:
  "i < length ps \<Longrightarrow>
   (\<forall>j. i < j \<and> j < length ps \<longrightarrow> \<not> key_eq (fst (ps ! j)) (fst (ps ! i))) \<Longrightarrow>
   dict_get (fold (\<lambda>p h. dict_set h (fst p) (snd p)) ps h0) (fst (ps ! i)) = Some (snd (ps ! i))"
proof (induction ps rule: rev_induct)
  case Nil
  then show ?case by simp
next
  case (snoc p ps)
  show ?case
  proof (cases "i = length ps")
    case True
    then show ?thesis by (simp add: dict_get_dict_set)
  next
    case False
    with snoc.prems have i: "i < length ps" by simp
    have "\<not> key_eq (fst ((ps @ [p]) ! length ps)) (fst ((ps @ [p]) ! i))"
      using spec [OF snoc.prems(2), of "length ps"] i by simp
    then have ne: "\<not> key_eq (fst p) (fst (ps ! i))"
      using i by (simp add: nth_append)
    have "\<forall>j. i < j \<and> j < length ps \<longrightarrow> \<not> key_eq (fst (ps ! j)) (fst (ps ! i))"
    proof (intro allI impI)
      fix j assume j: "i < j \<and> j < length ps"
      then have "\<not> key_eq (fst ((ps @ [p]) ! j)) (fst ((ps @ [p]) ! i))"
        using spec [OF snoc.prems(2), of j] by simp
      then show "\<not> key_eq (fst (ps ! j)) (fst (ps ! i))"
        using j i by (simp add: nth_append)
    qed
    from snoc.IH [OF i this] ne i show ?thesis
      by (simp add: dict_get_dict_set nth_append)
  qed
qed

lemma keys_fold:
  "key_norm ` fst ` set (fold (\<lambda>p h. dict_set h (fst p) (snd p)) ps h0) =
     key_norm ` fst ` set h0 \<union> key_norm ` fst ` set ps"
  by (induction ps rule: rev_induct) (auto simp: keys_dict_set)

lemma in_fold_dict_set:
  "(a, b) \<in> set (fold (\<lambda>p h. dict_set h (fst p) (snd p)) ps h0) \<Longrightarrow>
     (a \<in> fst ` set h0 \<or> a \<in> fst ` set ps) \<and> (b \<in> snd ` set h0 \<or> b \<in> snd ` set ps)"
proof (induction ps arbitrary: a b rule: rev_induct)
  case Nil
  then show ?case by force
next
  case (snoc p ps)
  let ?h = "fold (\<lambda>p h. dict_set h (fst p) (snd p)) ps h0"
  from snoc.prems have "(a, b) \<in> set (dict_set ?h (fst p) (snd p))" by simp
  from in_dict_set [OF this]
  have "(a, b) \<in> set ?h \<or> (b = snd p \<and> (a = fst p \<or> a \<in> fst ` set ?h))" .
  then show ?case
  proof
    assume "(a, b) \<in> set ?h"
    from snoc.IH [OF this] show ?thesis by auto
  next
    assume r: "b = snd p \<and> (a = fst p \<or> a \<in> fst ` set ?h)"
    show ?thesis
    proof (cases "a = fst p")
      case True
      with r show ?thesis by simp
    next
      case False
      with r obtain b' where "(a, b') \<in> set ?h" by auto
      from snoc.IH [OF this] r show ?thesis by auto
    qed
  qed
qed


section \<open>The inventory formatter\<close>

lemma inventory_loop_iff:
  "inventory_loop ds hv0 hosts0 = Inr (hv, hosts) \<longleftrightarrow>
     (\<exists>ps. list_all2 (\<lambda>d p. getitem d ''name'' = Inr (fst p) \<and> hashable (fst p) \<and>
                              hostvars_entry d = Inr (snd p)) ds ps \<and>
           hosts = hosts0 @ map fst ps \<and>
           hv = fold (\<lambda>p h. dict_set h (fst p) (snd p)) ps hv0)"
proof (induction ds arbitrary: hv0 hosts0)
  case Nil
  show ?case by auto
next
  case (Cons d ds)
  show ?case
  proof
    assume "inventory_loop (d # ds) hv0 hosts0 = Inr (hv, hosts)"
    then obtain n e where n: "getitem d ''name'' = Inr n" and e: "hostvars_entry d = Inr e"
      and h: "hashable n"
      and rest: "inventory_loop ds (dict_set hv0 n e) (hosts0 @ [n]) = Inr (hv, hosts)"
      by (auto simp: and_then_Inr_iff setitem_def split: if_splits)
    from rest obtain ps where
      ps: "list_all2 (\<lambda>d p. getitem d ''name'' = Inr (fst p) \<and> hashable (fst p) \<and>
                              hostvars_entry d = Inr (snd p)) ds ps"
      and hosts: "hosts = (hosts0 @ [n]) @ map fst ps"
      and hv: "hv = fold (\<lambda>p h. dict_set h (fst p) (snd p)) ps (dict_set hv0 n e)"
      unfolding Cons.IH by blast
    show "\<exists>ps. list_all2 (\<lambda>d p. getitem d ''name'' = Inr (fst p) \<and> hashable (fst p) \<and>
                              hostvars_entry d = Inr (snd p)) (d # ds) ps \<and>
           hosts = hosts0 @ map fst ps \<and>
           hv = fold (\<lambda>p h. dict_set h (fst p) (snd p)) ps hv0"
      using n e h ps hosts hv by (intro exI [of _ "(n, e) # ps"]) simp
  next
    assume "\<exists>ps. list_all2 (\<lambda>d p. getitem d ''name'' = Inr (fst p) \<and> hashable (fst p) \<and>
                              hostvars_entry d = Inr (snd p)) (d # ds) ps \<and>
           hosts = hosts0 @ map fst ps \<and>
           hv = fold (\<lambda>p h. dict_set h (fst p) (snd p)) ps hv0"
    then obtain p ps where
      d: "getitem d ''name'' = Inr (fst p)" "hashable (fst p)" "hostvars_entry d = Inr (snd p)"
      and ps: "list_all2 (\<lambda>d p. getitem d ''name'' = Inr (fst p) \<and> hashable (fst p) \<and>
                              hostvars_entry d = Inr (snd p)) ds ps"
      and hosts: "hosts = hosts0 @ fst p # map fst ps"
      and hv: "hv = fold (\<lambda>p h. dict_set h (fst p) (snd p)) ps (dict_set hv0 (fst p) (snd p))"
      by (auto simp: list_all2_Cons1)
    have "inventory_loop ds (dict_set hv0 (fst p) (snd p)) (hosts0 @ [fst p]) = Inr (hv, hosts)"
      unfolding Cons.IH using ps hosts hv by auto
    then show "inventory_loop (d # ds) hv0 hosts0 = Inr (hv, hosts)"
      using d by (simp add: setitem_def)
  qed
qed

lemma create_inventory_output_Inr:
  "create_inventory_output devices = Inr doc \<longleftrightarrow>
     (\<exists>ps. list_all2 (\<lambda>d p. getitem d ''name'' = Inr (fst p) \<and> hashable (fst p) \<and>
                              hostvars_entry d = Inr (snd p)) devices ps \<and>
        doc = PDict [(PStr ''all'',
                     PDict [(PStr ''hosts'', PList (map fst ps)), (PStr ''vars'', all_vars)]),
                   (PStr ''_meta'', PDict [(PStr ''hostvars'',
                      PDict (fold (\<lambda>p h. dict_set h (fst p) (snd p)) ps []))])])"
  by (auto simp: create_inventory_output_def and_then_Inr_iff inventory_loop_iff)

lemma hostvars_entry_plain [simp]:
  "hostvars_entry (plain_device i n ip) = Inr (plain_entry ip)"
  by (simp add: hostvars_entry_def plain_device_def plain_entry_def key_eq_def)

lemma name_plain [simp]: "getitem (plain_device i n ip) ''name'' = Inr (PStr n)"
  by (simp add: plain_device_def key_eq_def)

lemma create_sw1_twice:
  "create_inventory_output sw1_twice =
     Inr (PDict
       [(PStr ''all'',
         PDict [(PStr ''hosts'', PList [PStr ''sw1'', PStr ''sw1'']), (PStr ''vars'', all_vars)]),
        (PStr ''_meta'',
         PDict [(PStr ''hostvars'',
           PDict [(PStr ''sw1'', plain_entry (PStr ''10.0.0.2''))])])])"
  by (simp add: create_inventory_output_def sw1_twice_def setitem_def key_eq_def)

lemma path_all_hosts:
  "path (PDict [(PStr ''all'', PDict [(PStr ''hosts'', hs), (PStr ''vars'', vs)]),
                (PStr ''_meta'', PDict [(PStr ''hostvars'', hv)])]) [''all'', ''hosts''] = Inr hs"
  by (simp add: key_eq_def)

lemma path_meta_hostvars:
  "path (PDict [(PStr ''all'', PDict [(PStr ''hosts'', hs), (PStr ''vars'', vs)]),
                (PStr ''_meta'', PDict [(PStr ''hostvars'', hv)])]) [''_meta'', ''hostvars''] = Inr hv"
  by (simp add: key_eq_def)

section \<open>Calls of the API\<close>

lemma io_lift_apply [simp]: "io_lift m cs = (m, cs)"
  by (simp add: io_lift_def)

lemma io_bind_Inr:
  "io_bind m f cs = (Inr y, cs'') \<longleftrightarrow> (\<exists>v cs'. m cs = (Inr v, cs') \<and> f v cs' = (Inr y, cs''))"
  by (auto simp: io_bind_def split: prod.splits sum.splits)

lemma io_for_each_Inr:
  "io_for_each f xs cs = (Inr ys, cs') \<Longrightarrow>
     list_all2 (\<lambda>x y. \<exists>c c'. f x c = (Inr y, c')) xs ys"
proof (induction xs arbitrary: ys cs cs')
  case Nil
  then show ?case by simp
next
  case (Cons x xs)
  from Cons.prems obtain y c1 zs where
    1: "f x cs = (Inr y, c1)" and 2: "io_for_each f xs c1 = (Inr zs, cs')" and 3: "ys = y # zs"
    by (auto simp: io_bind_Inr)
  from Cons.IH [OF 2] 1 3 show ?case by auto
qed

lemma api_call_Inr:
  "api_call self ep cs = (Inr v, cs') \<Longrightarrow>
     \<exists>r. session self (length cs) ep = Some r \<and> json_body r = Some v \<and>
         \<not> (400 \<le> status_code r \<and> status_code r < 600) \<and> cs' = cs @ [ep]"
  by (auto simp: api_call_def raise_for_status_def json_def
           split: if_splits option.splits)

lemma io_bind_apply:
  "m cs = (Inr v, cs') \<Longrightarrow> io_bind m f cs = f v cs'"
  "m cs = (Inl e, cs') \<Longrightarrow> io_bind m f cs = (Inl e, cs')"
  by (simp_all add: io_bind_def)

lemma vlan_map_no_vlans:
  assumes "getitem interface ''tagged_vlans'' = Inr tagged"
    and "\<not> truthy tagged"
    and "getitem interface ''untagged_vlan'' = Inr untagged"
    and "\<not> truthy untagged"
    and "getitem interface ''name'' = Inr name"
    and "getitem interface ''id'' = Inr int_id"
  shows "vlan_map interface =
           Inr (PDict [(PStr ''interface'', name), (PStr ''int_id'', int_id),
                       (PStr ''untagged_vlan'', PNone), (PStr ''tagged_vlans'', PList [])])"
  using assms by (simp add: vlan_map_def)

lemmas run_defs =
  main_def NetboxInventory_def process_devices_def device_list_def api_call_def
  has_headers_def io_bind_def raise_for_status_def json_def key_eq_def
  device_hash_def device_interfaces_def process_interface_vlans_def vlan_map_def
  device_primary_ip_def primary_ip_of_def device_ssh_port_def ssh_port_of_def
  interface_hash_def interface_ip_def create_inventory_output_def hostvars_entry_def
  setitem_def ok_def not_found_def list_args_def lab_def

section \<open>Every method stops at the first HTTP error status\<close>

lemma fail_fast_lift: "fail_fast self (io_lift m)"
  by (simp add: fail_fast_def)

lemma fail_fast_api_call: "fail_fast self (api_call self ep)"
  unfolding fail_fast_def
proof
  fix cs
  show "\<exists>new. snd (api_call self ep cs) = cs @ new \<and>
        (\<forall>k < length new. error_reply (session self (length cs + k) (new ! k)) \<longrightarrow>
           Suc k = length new \<and> fst (api_call self ep cs) = Inl HTTPError)"
  proof (cases "has_headers self")
    case False
    then show ?thesis by (intro exI [of _ "[]"]) (simp add: api_call_def)
  next
    case True
    then show ?thesis
      by (intro exI [of _ "[ep]"])
         (auto simp: api_call_def error_reply_def raise_for_status_def split: option.splits)
  qed
qed

lemma fail_fast_bind:
  assumes m: "fail_fast self m" and f: "\<And>v. fail_fast self (f v)"
  shows "fail_fast self (io_bind m f)"
  unfolding fail_fast_def
proof
  fix cs
  from m obtain n1 where
    n1: "snd (m cs) = cs @ n1"
    and e1: "\<forall>k < length n1. error_reply (session self (length cs + k) (n1 ! k)) \<longrightarrow>
               Suc k = length n1 \<and> fst (m cs) = Inl HTTPError"
    unfolding fail_fast_def by blast
  show "\<exists>new. snd (io_bind m f cs) = cs @ new \<and>
        (\<forall>k < length new. error_reply (session self (length cs + k) (new ! k)) \<longrightarrow>
           Suc k = length new \<and> fst (io_bind m f cs) = Inl HTTPError)"
  proof (cases "fst (m cs)")
    case (Inl e)
    then have "io_bind m f cs = (Inl e, snd (m cs))"
      by (cases "m cs") (simp add: io_bind_def)
    with n1 e1 Inl show ?thesis by auto
  next
    case (Inr v)
    then have b: "io_bind m f cs = f v (cs @ n1)"
      using n1 by (cases "m cs") (simp add: io_bind_def)
    from f [of v] obtain n2 where
      n2: "snd (f v (cs @ n1)) = (cs @ n1) @ n2"
      and e2: "\<forall>k < length n2. error_reply (session self (length (cs @ n1) + k) (n2 ! k)) \<longrightarrow>
                 Suc k = length n2 \<and> fst (f v (cs @ n1)) = Inl HTTPError"
      unfolding fail_fast_def by blast
    have none1: "\<not> error_reply (session self (length cs + k) (n1 ! k))" if "k < length n1" for k
      using e1 that Inr by auto
    have "\<forall>k < length (n1 @ n2). error_reply (session self (length cs + k) ((n1 @ n2) ! k)) \<longrightarrow>
           Suc k = length (n1 @ n2) \<and> fst (f v (cs @ n1)) = Inl HTTPError"
    proof (intro allI impI)
      fix k
      assume k: "k < length (n1 @ n2)"
        and err: "error_reply (session self (length cs + k) ((n1 @ n2) ! k))"
      show "Suc k = length (n1 @ n2) \<and> fst (f v (cs @ n1)) = Inl HTTPError"
      proof (cases "k < length n1")
        case True
        with err none1 [of k] show ?thesis by (simp add: nth_append)
      next
        case False
        define j where "j = k - length n1"
        have j: "j < length n2" "k = length n1 + j" using k False by (simp_all add: j_def)
        have "error_reply (session self (length (cs @ n1) + j) (n2 ! j))"
          using err j by (simp add: nth_append add.assoc)
        with e2 j show ?thesis by auto
      qed
    qed
    with b n2 show ?thesis by (intro exI [of _ "n1 @ n2"]) simp
  qed
qed

lemma fail_fast_for_each:
  assumes "\<And>x. fail_fast self (f x)"
  shows "fail_fast self (io_for_each f xs)"
proof (induction xs)
  case Nil
  show ?case unfolding io_for_each.simps by (rule fail_fast_lift)
next
  case (Cons x xs)
  show ?case
    unfolding io_for_each.simps by (intro fail_fast_bind fail_fast_lift assms Cons.IH)
qed

lemmas fail_fast_intros =
  fail_fast_bind fail_fast_lift fail_fast_api_call fail_fast_for_each

lemma fail_fast_device_interfaces: "fail_fast self (device_interfaces self device_id)"
  unfolding device_interfaces_def by (intro fail_fast_intros)

lemma fail_fast_interface_ip: "fail_fast self (interface_ip self interface_id)"
  unfolding interface_ip_def by (intro fail_fast_intros)

lemma fail_fast_device_primary_ip: "fail_fast self (device_primary_ip self device_id)"
  unfolding device_primary_ip_def by (intro fail_fast_intros)

lemma fail_fast_device_ssh_port: "fail_fast self (device_ssh_port self device_id)"
  unfolding device_ssh_port_def by (intro fail_fast_intros)

lemma fail_fast_process_interface_vlans:
  "fail_fast self (process_interface_vlans self device_id)"
  unfolding process_interface_vlans_def
  by (intro fail_fast_intros fail_fast_device_interfaces)

lemma fail_fast_interface_hash: "fail_fast self (interface_hash self interface)"
  unfolding interface_hash_def by (intro fail_fast_intros fail_fast_interface_ip)

lemma fail_fast_device_hash: "fail_fast self (device_hash self device)"
  unfolding device_hash_def
  by (intro fail_fast_intros fail_fast_device_interfaces fail_fast_process_interface_vlans
        fail_fast_device_primary_ip fail_fast_device_ssh_port fail_fast_interface_hash)

lemma fail_fast_process_devices: "fail_fast self (process_devices self)"
  unfolding process_devices_def device_list_def
  by (intro fail_fast_intros fail_fast_device_hash)

lemma fail_fast_list_mode:
  "fail_fast self (io_bind (process_devices self)
                     (\<lambda>devices. io_lift (create_inventory_output devices)))"
  by (intro fail_fast_intros fail_fast_process_devices)

section \<open>What the methods return when they return\<close>

lemma device_interfaces_Inr:
  "device_interfaces self device_id cs = (Inr v, cs') \<Longrightarrow>
     \<exists>r b. session self (length cs) (Interfaces device_id) = Some r \<and> json_body r = Some b \<and>
           getitem b ''results'' = Inr v"
  by (auto simp: device_interfaces_def io_bind_Inr dest!: api_call_Inr)

lemma device_primary_ip_Inr:
  "device_primary_ip self device_id cs = (Inr v, cs') \<Longrightarrow>
     \<exists>r b. session self (length cs) (Device device_id) = Some r \<and> json_body r = Some b \<and>
           primary_ip_of b = Inr v"
  by (auto simp: device_primary_ip_def io_bind_Inr dest!: api_call_Inr)

lemma process_interface_vlans_Inr:
  "process_interface_vlans self device_id cs = (Inr vlans, cs') \<Longrightarrow>
     \<exists>r b results seq.
        session self (length cs) (Interfaces device_id) = Some r \<and> json_body r = Some b \<and>
        getitem b ''results'' = Inr results \<and> py_iter results = Inr seq \<and>
        list_all2 (\<lambda>x y. vlan_map x = Inr y) seq vlans"
  by (auto simp: process_interface_vlans_def io_bind_Inr and_then_Inr_iff for_each_Inr_iff
           dest!: device_interfaces_Inr)

lemma interface_hash_Inr:
  "interface_hash self interface cs = (Inr h, cs') \<Longrightarrow>
     \<exists>int_name int_id ip_addr.
        getitem interface ''name'' = Inr int_name \<and> getitem interface ''id'' = Inr int_id \<and>
        h = PDict [(PStr ''interface_name'', int_name), (PStr ''interface_id'', int_id),
                   (PStr ''ip_address'', ip_addr)]"
  by (auto simp: interface_hash_def io_bind_Inr)

lemma vlan_map_Inr:
  "vlan_map interface = Inr v \<Longrightarrow>
     \<exists>name int_id untagged_vid tagged_vlan_list.
        getitem interface ''name'' = Inr name \<and> getitem interface ''id'' = Inr int_id \<and>
        v = PDict [(PStr ''interface'', name), (PStr ''int_id'', int_id),
                   (PStr ''untagged_vlan'', untagged_vid),
                   (PStr ''tagged_vlans'', PList tagged_vlan_list)]"
  by (auto simp: vlan_map_def and_then_Inr_iff)

lemma device_hash_Inr:
  "device_hash self device cs = (Inr h, cs') \<Longrightarrow>
     \<exists>device_id interfaces c1 vlans c2 device_ip c3 ssh_port c4 interface_seq int_list name.
        getitem device ''id'' = Inr device_id \<and>
        device_interfaces self device_id cs = (Inr interfaces, c1) \<and>
        process_interface_vlans self device_id c1 = (Inr vlans, c2) \<and>
        device_primary_ip self device_id c2 = (Inr device_ip, c3) \<and>
        device_ssh_port self device_id c3 = (Inr ssh_port, c4) \<and>
        py_iter interfaces = Inr interface_seq \<and>
        io_for_each (interface_hash self) interface_seq c4 = (Inr int_list, cs') \<and>
        getitem device ''name'' = Inr name \<and>
        h = PDict [(PStr ''id'', device_id),
                   (PStr ''ansible_ssh_host'', device_ip),
                   (PStr ''ansible_ssh_port'', ssh_port),
                   (PStr ''name'', name),
                   (PStr ''interfaces'', PList int_list),
                   (PStr ''vlans'', PList vlans)]"
  unfolding device_hash_def io_bind_Inr io_lift_apply prod.inject by blast

lemma process_devices_Inr:
  "process_devices self [] = (Inr hashes, cs') \<Longrightarrow>
     \<exists>r b results devices.
        session self 0 Devices = Some r \<and> json_body r = Some b \<and>
        getitem b ''results'' = Inr results \<and> py_iter results = Inr devices \<and>
        list_all2 (\<lambda>d h. \<exists>c c'. device_hash self d c = (Inr h, c')) devices hashes"
  by (auto simp: process_devices_def device_list_def io_bind_Inr and_then_Inr_iff
           dest!: api_call_Inr io_for_each_Inr)

lemma list_mode_printed:
  assumes "arg_list a" and "stdout (NetboxInventory self a) = [doc]"
  shows "\<exists>hashes cs. process_devices self [] = (Inr hashes, cs) \<and>
           create_inventory_output hashes = Inr doc"
proof -
  let ?p = "io_bind (process_devices self)
              (\<lambda>devices. io_lift (create_inventory_output devices))"
  obtain res cs where p: "?p [] = (res, cs)" by (cases "?p []")
  with assms have "res = Inr doc"
    by (cases res) (simp_all add: NetboxInventory_def)
  with p show ?thesis by (auto simp: io_bind_Inr)
qed

lemma hostvars_entry_device_hash:
  "hostvars_entry (PDict [(PStr ''id'', device_id),
                   (PStr ''ansible_ssh_host'', device_ip),
                   (PStr ''ansible_ssh_port'', ssh_port),
                   (PStr ''name'', name),
                   (PStr ''interfaces'', interfaces),
                   (PStr ''vlans'', vlans)]) =
     Inr (PDict [(PStr ''ansible_host'', device_ip),
                 (PStr ''ansible_port'', ssh_port),
                 (PStr ''interfaces'', interfaces),
                 (PStr ''vlans'', vlans)])"
  by (simp add: hostvars_entry_def key_eq_def)

lemma name_device_hash:
  "getitem (PDict [(PStr ''id'', device_id),
                   (PStr ''ansible_ssh_host'', device_ip),
                   (PStr ''ansible_ssh_port'', ssh_port),
                   (PStr ''name'', name),
                   (PStr ''interfaces'', interfaces),
                   (PStr ''vlans'', vlans)]) ''name'' = Inr name"
  by (simp add: key_eq_def)

lemma device_hash_aligned:
  assumes det: "\<forall>n m device_id.
                  session self n (Interfaces device_id) = session self m (Interfaces device_id)"
    and run: "device_hash self device cs = (Inr h, cs')"
  shows "\<exists>e. hostvars_entry h = Inr e \<and> aligned e"
proof -
  from device_hash_Inr [OF run] obtain device_id interfaces c1 vlans c2 device_ip ssh_port c4
      interface_seq int_list name where
    ifs: "device_interfaces self device_id cs = (Inr interfaces, c1)"
    and vl: "process_interface_vlans self device_id c1 = (Inr vlans, c2)"
    and seq: "py_iter interfaces = Inr interface_seq"
    and il: "io_for_each (interface_hash self) interface_seq c4 = (Inr int_list, cs')"
    and h: "h = PDict [(PStr ''id'', device_id),
                   (PStr ''ansible_ssh_host'', device_ip),
                   (PStr ''ansible_ssh_port'', ssh_port),
                   (PStr ''name'', name),
                   (PStr ''interfaces'', PList int_list),
                   (PStr ''vlans'', PList vlans)]"
    by blast
  from device_interfaces_Inr [OF ifs] obtain r b where
    r: "session self (length cs) (Interfaces device_id) = Some r" "json_body r = Some b"
       "getitem b ''results'' = Inr interfaces"
    by blast
  from process_interface_vlans_Inr [OF vl] obtain r' b' results seq' where
    r': "session self (length c1) (Interfaces device_id) = Some r'" "json_body r' = Some b'"
        "getitem b' ''results'' = Inr results" "py_iter results = Inr seq'"
    and vm: "list_all2 (\<lambda>x y. vlan_map x = Inr y) seq' vlans"
    by blast
  have "session self (length cs) (Interfaces device_id) =
          session self (length c1) (Interfaces device_id)"
    using det by blast
  with r r' seq have same: "seq' = interface_seq" by simp
  from io_for_each_Inr [OF il]
  have ih: "list_all2 (\<lambda>x y. \<exists>c c'. interface_hash self x c = (Inr y, c')) interface_seq int_list" .
  have l1: "length int_list = length interface_seq"
    using ih by (simp add: list_all2_lengthD)
  have l2: "length vlans = length interface_seq"
    using vm same by (simp add: list_all2_lengthD)
  have each: "\<exists>int_id int_name.
           getitem (int_list ! i) ''interface_id'' = Inr int_id \<and>
           getitem (vlans ! i) ''int_id'' = Inr int_id \<and>
           getitem (int_list ! i) ''interface_name'' = Inr int_name \<and>
           getitem (vlans ! i) ''interface'' = Inr int_name" if i: "i < length int_list" for i
  proof -
    from ih i l1 obtain c c' where
      "interface_hash self (interface_seq ! i) c = (Inr (int_list ! i), c')"
      by (auto simp: list_all2_conv_all_nth)
    from interface_hash_Inr [OF this] obtain int_name int_id ip_addr where
      a: "getitem (interface_seq ! i) ''name'' = Inr int_name"
         "getitem (interface_seq ! i) ''id'' = Inr int_id"
         "int_list ! i = PDict [(PStr ''interface_name'', int_name), (PStr ''interface_id'', int_id),
                   (PStr ''ip_address'', ip_addr)]"
      by blast
    from vm same i l1 have "vlan_map (interface_seq ! i) = Inr (vlans ! i)"
      by (simp add: list_all2_conv_all_nth)
    from vlan_map_Inr [OF this] a(1,2) obtain untagged_vid tagged_vlan_list where
      b: "vlans ! i = PDict [(PStr ''interface'', int_name), (PStr ''int_id'', int_id),
                   (PStr ''untagged_vlan'', untagged_vid),
                   (PStr ''tagged_vlans'', PList tagged_vlan_list)]"
      by auto
    show ?thesis
      unfolding a(3) b by (simp add: key_eq_def)
  qed
  have "aligned (PDict [(PStr ''ansible_host'', device_ip),
                 (PStr ''ansible_port'', ssh_port),
                 (PStr ''interfaces'', PList int_list),
                 (PStr ''vlans'', PList vlans)])"
    unfolding aligned_def
  proof (intro exI conjI)
    show "getitem (PDict [(PStr ''ansible_host'', device_ip),
                 (PStr ''ansible_port'', ssh_port),
                 (PStr ''interfaces'', PList int_list),
                 (PStr ''vlans'', PList vlans)]) ''interfaces'' = Inr (PList int_list)"
      by (simp add: key_eq_def)
    show "getitem (PDict [(PStr ''ansible_host'', device_ip),
                 (PStr ''ansible_port'', ssh_port),
                 (PStr ''interfaces'', PList int_list),
                 (PStr ''vlans'', PList vlans)]) ''vlans'' = Inr (PList vlans)"
      by (simp add: key_eq_def)
    show "length int_list = length vlans" using l1 l2 by simp
    show "\<forall>i < length int_list. \<exists>int_id int_name.
           getitem (int_list ! i) ''interface_id'' = Inr int_id \<and>
           getitem (vlans ! i) ''int_id'' = Inr int_id \<and>
           getitem (int_list ! i) ''interface_name'' = Inr int_name \<and>
           getitem (vlans ! i) ''interface'' = Inr int_name"
      using each by blast
  qed
  then show ?thesis
    unfolding h hostvars_entry_device_hash by blast
qed

section \<open>Records built from the results of the steps\<close>

lemma device_hashI:
  assumes "getitem device ''id'' = Inr device_id"
    and "device_interfaces self device_id cs = (Inr interfaces, c1)"
    and "process_interface_vlans self device_id c1 = (Inr vlans, c2)"
    and "device_primary_ip self device_id c2 = (Inr device_ip, c3)"
    and "device_ssh_port self device_id c3 = (Inr ssh_port, c4)"
    and "py_iter interfaces = Inr interface_seq"
    and "io_for_each (interface_hash self) interface_seq c4 = (Inr int_list, cs')"
    and "getitem device ''name'' = Inr name"
  shows "device_hash self device cs =
           (Inr (PDict [(PStr ''id'', device_id),
                        (PStr ''ansible_ssh_host'', device_ip),
                        (PStr ''ansible_ssh_port'', ssh_port),
                        (PStr ''name'', name),
                        (PStr ''interfaces'', PList int_list),
                        (PStr ''vlans'', PList vlans)]), cs')"
  using assms by (simp add: device_hash_def io_bind_apply)

lemma device_hash_fields:
  "getitem (PDict [(PStr ''id'', device_id),
                   (PStr ''ansible_ssh_host'', device_ip),
                   (PStr ''ansible_ssh_port'', ssh_port),
                   (PStr ''name'', name),
                   (PStr ''interfaces'', interfaces),
                   (PStr ''vlans'', vlans)]) ''ansible_ssh_host'' = Inr device_ip"
  "getitem (PDict [(PStr ''id'', device_id),
                   (PStr ''ansible_ssh_host'', device_ip),
                   (PStr ''ansible_ssh_port'', ssh_port),
                   (PStr ''name'', name),
                   (PStr ''interfaces'', interfaces),
                   (PStr ''vlans'', vlans)]) ''ansible_ssh_port'' = Inr ssh_port"
  "getitem (PDict [(PStr ''id'', device_id),
                   (PStr ''ansible_ssh_host'', device_ip),
                   (PStr ''ansible_ssh_port'', ssh_port),
                   (PStr ''name'', name),
                   (PStr ''interfaces'', interfaces),
                   (PStr ''vlans'', vlans)]) ''vlans'' = Inr vlans"
  by (simp_all add: key_eq_def)

lemma hostvars_entry_fields:
  "getitem (PDict [(PStr ''ansible_host'', device_ip),
                 (PStr ''ansible_port'', ssh_port),
                 (PStr ''interfaces'', interfaces),
                 (PStr ''vlans'', vlans)]) ''ansible_host'' = Inr device_ip"
  "getitem (PDict [(PStr ''ansible_host'', device_ip),
                 (PStr ''ansible_port'', ssh_port),
                 (PStr ''interfaces'', interfaces),
                 (PStr ''vlans'', vlans)]) ''ansible_port'' = Inr ssh_port"
  "getitem (PDict [(PStr ''ansible_host'', device_ip),
                 (PStr ''ansible_port'', ssh_port),
                 (PStr ''interfaces'', interfaces),
                 (PStr ''vlans'', vlans)]) ''vlans'' = Inr vlans"
  by (simp_all add: key_eq_def)

lemma vlan_map_no_vlans_Inr:
  assumes "vlan_map x = Inr v"
    and "getitem x ''tagged_vlans'' = Inr PNone \<or> getitem x ''tagged_vlans'' = Inr (PList [])"
    and "getitem x ''untagged_vlan'' = Inr PNone"
  shows "getitem v ''tagged_vlans'' = Inr (PList []) \<and> getitem v ''untagged_vlan'' = Inr PNone"
proof -
  from vlan_map_Inr [OF assms(1)] obtain name int_id where
    n: "getitem x ''name'' = Inr name" "getitem x ''id'' = Inr int_id"
    by blast
  from assms(2) obtain tagged where t: "getitem x ''tagged_vlans'' = Inr tagged" "\<not> truthy tagged"
    by auto
  have "vlan_map x =
          Inr (PDict [(PStr ''interface'', name), (PStr ''int_id'', int_id),
                      (PStr ''untagged_vlan'', PNone), (PStr ''tagged_vlans'', PList [])])"
    using t assms(3) n
    by (intro vlan_map_no_vlans [where tagged = tagged and untagged = PNone]) simp_all
  with assms(1) show ?thesis by (auto simp: key_eq_def)
qed

lemma for_each_total:
  assumes "\<forall>x \<in> set xs. \<exists>y. f x = Inr y"
  shows "\<exists>ys. for_each f xs = Inr ys"
  using assms by (induction xs) auto

lemma dict_get_None_iff:
  "dict_get d k = None \<longleftrightarrow> key_norm k \<notin> key_norm ` fst ` set d"
proof (induction d)
  case Nil
  show ?case by simp
next
  case (Cons p d)
  obtain k' v' where p: "p = (k', v')" by (cases p)
  show ?case
  proof (cases "key_eq k' k")
    case True
    then show ?thesis using p by (simp add: key_eq_def)
  next
    case False
    then show ?thesis using p Cons.IH by (auto simp: key_eq_def)
  qed
qed

lemma dict_get_SomeD:
  "dict_get d k = Some v \<Longrightarrow> \<exists>k'. (k', v) \<in> set d \<and> key_eq k' k"
  by (induction d) (auto split: if_splits)

lemma key_eq_PStr: "key_eq k (PStr s) \<Longrightarrow> k = PStr s"
  by (cases k) (auto simp: key_eq_def)

lemma key_eq_PNone: "key_eq k PNone \<Longrightarrow> k = PNone"
  by (cases k) (auto simp: key_eq_def)

lemma process_devices_records:
  assumes pd: "process_devices self [] = (Inr hashes, cs)"
    and listing: "session self 0 Devices = Some r0" "json_body r0 = Some listing"
      "getitem listing ''results'' = Inr (PList devices)"
  shows "list_all2 (\<lambda>d h. \<exists>c c'. device_hash self d c = (Inr h, c')) devices hashes"
  using process_devices_Inr [OF pd] listing by auto

lemma process_interface_vlans_no_vlan_data:
  assumes "device_interfaces self device_id cs = (Inr (PList interfaces), cs')"
    and "\<forall>i \<in> set interfaces.
           (getitem i ''tagged_vlans'' = Inr PNone \<or> getitem i ''tagged_vlans'' = Inr (PList [])) \<and>
           getitem i ''untagged_vlan'' = Inr PNone \<and>
           (\<exists>name. getitem i ''name'' = Inr name) \<and> (\<exists>int_id. getitem i ''id'' = Inr int_id)"
  shows "\<exists>vlans. process_interface_vlans self device_id cs = (Inr vlans, cs') \<and>
           length vlans = length interfaces \<and>
           (\<forall>v \<in> set vlans. getitem v ''tagged_vlans'' = Inr (PList []) \<and>
                              getitem v ''untagged_vlan'' = Inr PNone)"
proof -
  have each: "\<exists>v. vlan_map i = Inr v \<and> getitem v ''tagged_vlans'' = Inr (PList []) \<and>
                 getitem v ''untagged_vlan'' = Inr PNone" if "i \<in> set interfaces" for i
  proof -
    from assms(2) that obtain tagged name int_id where
      t: "getitem i ''tagged_vlans'' = Inr tagged" "\<not> truthy tagged"
      and u: "getitem i ''untagged_vlan'' = Inr PNone"
      and n: "getitem i ''name'' = Inr name" and d: "getitem i ''id'' = Inr int_id"
      by fastforce
    have "vlan_map i =
            Inr (PDict [(PStr ''interface'', name), (PStr ''int_id'', int_id),
                        (PStr ''untagged_vlan'', PNone), (PStr ''tagged_vlans'', PList [])])"
      using t u n d by (intro vlan_map_no_vlans [where tagged = tagged and untagged = PNone]) simp_all
    then show ?thesis by (simp add: key_eq_def)
  qed
  have "\<exists>vlans. for_each vlan_map xs = Inr vlans \<and> length vlans = length xs \<and>
          (\<forall>v \<in> set vlans. getitem v ''tagged_vlans'' = Inr (PList []) \<and>
                             getitem v ''untagged_vlan'' = Inr PNone)"
    if "set xs \<subseteq> set interfaces" for xs
    using that
  proof (induction xs)
    case Nil
    show ?case by simp
  next
    case (Cons x xs)
    from Cons.prems each [of x] obtain v where
      v: "vlan_map x = Inr v" "getitem v ''tagged_vlans'' = Inr (PList [])"
         "getitem v ''untagged_vlan'' = Inr PNone"
      by auto
    from Cons obtain vs where
      vs: "for_each vlan_map xs = Inr vs" "length vs = length xs"
          "\<forall>v \<in> set vs. getitem v ''tagged_vlans'' = Inr (PList []) \<and>
                          getitem v ''untagged_vlan'' = Inr PNone"
      by auto
    show ?case using v vs by simp
  qed
  from this [of interfaces] obtain vlans where
    vl: "for_each vlan_map interfaces = Inr vlans" "length vlans = length interfaces"
        "\<forall>v \<in> set vlans. getitem v ''tagged_vlans'' = Inr (PList []) \<and>
                           getitem v ''untagged_vlan'' = Inr PNone"
    by auto
  have "process_interface_vlans self device_id cs = (Inr vlans, cs')"
    using assms(1) vl(1) by (simp add: process_interface_vlans_def io_bind_apply)
  with vl show ?thesis by blast
qed

section \<open>The claims\<close>

text \<open>
  C1. End to end: for the single device \<^verbatim>\<open>{id:1, name:"sw1"}\<close> with the interface
  \<^verbatim>\<open>{id:10, name:"eth0", tagged_vlans:[{vid:100}], untagged_vlan:{vid:1}}\<close>, the address
  record \<^verbatim>\<open>{address:"192.0.2.5/24"}\<close> bound to it and the device detail
  \<^verbatim>\<open>{primary_ip:{address:"192.0.2.1/24"}, custom_fields:{ASN:"22"}}\<close>, a run in list mode
  raises nothing and prints exactly one document: \<^verbatim>\<open>all.hosts\<close> is \<^verbatim>\<open>["sw1"]\<close>, \<^verbatim>\<open>all.vars\<close>
  the static defaults, and \<^verbatim>\<open>_meta.hostvars.sw1\<close> carries the address without its mask,
  the port \<^verbatim>\<open>"22"\<close>, the interface with its address records and the VLAN entry
  \<^verbatim>\<open>{interface:"eth0", int_id:10, untagged_vlan:1, tagged_vlans:[100]}\<close>.
\<close>

theorem end_to_end_sw1:
  "main sw1_server list_args =
     \<lparr>raised = None,
      stdout =
        [PDict
          [(PStr ''all'',
            PDict
             [(PStr ''hosts'', PList [PStr ''sw1'']),
              (PStr ''vars'',
               PDict
                [(PStr ''ansible_ssh_user'', PStr ''vagrant''),
                 (PStr ''ansible_network_os'', PStr ''eos''),
                 (PStr ''ansible_ssh_private_key_file'',
                  PStr ''~/.vagrant.d/insecure_private_key'')])]),
           (PStr ''_meta'',
            PDict
             [(PStr ''hostvars'',
               PDict
                [(PStr ''sw1'',
                  PDict
                   [(PStr ''ansible_host'', PStr ''192.0.2.1''),
                    (PStr ''ansible_port'', PStr ''22''),
                    (PStr ''interfaces'',
                     PList
                      [PDict
                        [(PStr ''interface_name'', PStr ''eth0''),
                         (PStr ''interface_id'', PInt 10),
                         (PStr ''ip_address'',
                          PList [PDict [(PStr ''address'', PStr ''192.0.2.5/24'')]])]]),
                    (PStr ''vlans'',
                     PList
                      [PDict
                        [(PStr ''interface'', PStr ''eth0''),
                         (PStr ''int_id'', PInt 10),
                         (PStr ''untagged_vlan'', PInt 1),
                         (PStr ''tagged_vlans'', PList [PInt 100])]])])])])]],
      calls =
        [Devices, Interfaces (PInt 1), Interfaces (PInt 1), Device (PInt 1),
         Device (PInt 1), IpAddresses (PInt 10)]\<rparr>"
  by (simp add: run_defs sw1_server_def all_vars_def)




text \<open>
  C3. Given devices that each carry a hashable name and the four fields of a hostvars
  entry, the formatter raises nothing, whether or not names repeat; \<^verbatim>\<open>all.hosts\<close> is the
  list of the names in the order of the devices, repetitions kept; and the entry stored
  under a name in \<^verbatim>\<open>_meta.hostvars\<close> is that of the last device of that name.
\<close>

theorem hosts_in_order_last_write_wins:
  assumes "map (\<lambda>d. getitem d ''name'') devices = map Inr names"
    and "map hostvars_entry devices = map Inr entries"
    and "\<forall>n \<in> set names. hashable n"
  shows "\<exists>doc hostvars.
           create_inventory_output devices = Inr doc \<and>
           path doc [''all'', ''hosts''] = Inr (PList names) \<and>
           path doc [''_meta'', ''hostvars''] = Inr (PDict hostvars) \<and>
           (\<forall>i < length devices.
              (\<forall>j. i < j \<and> j < length devices \<longrightarrow> \<not> key_eq (names ! j) (names ! i)) \<longrightarrow>
              dict_get hostvars (names ! i) = Some (entries ! i))"
proof -
  let ?ps = "zip names entries"
  have ln: "length names = length devices"
    using arg_cong [OF assms(1), of length] by simp
  have le: "length entries = length devices"
    using arg_cong [OF assms(2), of length] by simp
  have nth_n: "getitem (devices ! i) ''name'' = Inr (names ! i)" if "i < length devices" for i
    using arg_cong [OF assms(1), of "\<lambda>xs. xs ! i"] that ln by simp
  have nth_e: "hostvars_entry (devices ! i) = Inr (entries ! i)" if "i < length devices" for i
    using arg_cong [OF assms(2), of "\<lambda>xs. xs ! i"] that le by simp
  have all2: "list_all2 (\<lambda>d p. getitem d ''name'' = Inr (fst p) \<and> hashable (fst p) \<and>
                              hostvars_entry d = Inr (snd p)) devices ?ps"
    unfolding list_all2_conv_all_nth
    using ln le nth_n nth_e assms(3) by auto
  let ?hv = "fold (\<lambda>p h. dict_set h (fst p) (snd p)) ?ps []"
  let ?doc = "PDict [(PStr ''all'',
                     PDict [(PStr ''hosts'', PList (map fst ?ps)), (PStr ''vars'', all_vars)]),
                   (PStr ''_meta'', PDict [(PStr ''hostvars'', PDict ?hv)])]"
  have doc: "create_inventory_output devices = Inr ?doc"
    unfolding create_inventory_output_Inr using all2 by blast
  have names: "map fst ?ps = names"
    using ln le by simp
  have last: "dict_get ?hv (names ! i) = Some (entries ! i)"
    if i: "i < length devices"
      and later: "\<forall>j. i < j \<and> j < length devices \<longrightarrow> \<not> key_eq (names ! j) (names ! i)" for i
  proof -
    have i': "i < length ?ps" using i ln le by simp
    have "\<forall>j. i < j \<and> j < length ?ps \<longrightarrow> \<not> key_eq (fst (?ps ! j)) (fst (?ps ! i))"
      using later i ln le by simp
    from dict_get_fold_last [OF i' this, of "[]"] i ln le show ?thesis by simp
  qed
  have p1: "path ?doc [''all'', ''hosts''] = Inr (PList names)"
    unfolding path_all_hosts names ..
  have p2: "path ?doc [''_meta'', ''hostvars''] = Inr (PDict ?hv)"
    by (rule path_meta_hostvars)
  have fin: "\<forall>i < length devices.
              (\<forall>j. i < j \<and> j < length devices \<longrightarrow> \<not> key_eq (names ! j) (names ! i)) \<longrightarrow>
              dict_get ?hv (names ! i) = Some (entries ! i)"
    using last by blast
  show ?thesis
  proof (intro exI conjI)
    show "create_inventory_output devices = Inr ?doc" by (rule doc)
    show "path ?doc [''all'', ''hosts''] = Inr (PList names)" by (rule p1)
    show "path ?doc [''_meta'', ''hostvars''] = Inr (PDict ?hv)" by (rule p2)
    show "\<forall>i < length devices.
              (\<forall>j. i < j \<and> j < length devices \<longrightarrow> \<not> key_eq (names ! j) (names ! i)) \<longrightarrow>
              dict_get ?hv (names ! i) = Some (entries ! i)" by (rule fin)
  qed
qed

text \<open>The statement above at two devices both named \<^verbatim>\<open>sw1\<close>: the second one's entry stays.\<close>

theorem hosts_in_order_last_write_wins_witness:
  "create_inventory_output sw1_twice =
     Inr (PDict
       [(PStr ''all'',
         PDict [(PStr ''hosts'', PList [PStr ''sw1'', PStr ''sw1'']), (PStr ''vars'', all_vars)]),
        (PStr ''_meta'',
         PDict [(PStr ''hostvars'',
           PDict [(PStr ''sw1'', plain_entry (PStr ''10.0.0.2''))])])])
   \<and> (\<exists>doc hostvars.
        create_inventory_output sw1_twice = Inr doc \<and>
        path doc [''all'', ''hosts''] = Inr (PList [PStr ''sw1'', PStr ''sw1'']) \<and>
        path doc [''_meta'', ''hostvars''] = Inr (PDict hostvars) \<and>
        dict_get hostvars (PStr ''sw1'') = Some (plain_entry (PStr ''10.0.0.2'')))"
proof -
  let ?names = "[PStr ''sw1'', PStr ''sw1'']"
  let ?entries = "[plain_entry PNone, plain_entry (PStr ''10.0.0.2'')]"
  have 1: "map (\<lambda>d. getitem d ''name'') sw1_twice = map Inr ?names"
    by (simp add: sw1_twice_def)
  have 2: "map hostvars_entry sw1_twice = map Inr ?entries"
    by (simp add: sw1_twice_def)
  have 3: "\<forall>n \<in> set ?names. hashable n" by simp
  have len: "length sw1_twice = 2" by (simp add: sw1_twice_def)
  have nolater: "\<forall>j. 1 < j \<and> j < length sw1_twice \<longrightarrow> \<not> key_eq (?names ! j) (?names ! 1)"
    unfolding len by arith
  from hosts_in_order_last_write_wins [OF 1 2 3] obtain doc hostvars where
    d: "create_inventory_output sw1_twice = Inr doc"
    and h: "path doc [''all'', ''hosts''] = Inr (PList ?names)"
    and v: "path doc [''_meta'', ''hostvars''] = Inr (PDict hostvars)"
    and l: "\<forall>i < length sw1_twice.
              (\<forall>j. i < j \<and> j < length sw1_twice \<longrightarrow> \<not> key_eq (?names ! j) (?names ! i)) \<longrightarrow>
              dict_get hostvars (?names ! i) = Some (?entries ! i)"
    by (elim exE conjE)
  have "1 < length sw1_twice" unfolding len by simp
  with l nolater have "dict_get hostvars (?names ! 1) = Some (?entries ! 1)"
    by blast
  then have g: "dict_get hostvars (PStr ''sw1'') = Some (plain_entry (PStr ''10.0.0.2''))"
    by simp
  have "\<exists>doc hostvars.
        create_inventory_output sw1_twice = Inr doc \<and>
        path doc [''all'', ''hosts''] = Inr (PList [PStr ''sw1'', PStr ''sw1'']) \<and>
        path doc [''_meta'', ''hostvars''] = Inr (PDict hostvars) \<and>
        dict_get hostvars (PStr ''sw1'') = Some (plain_entry (PStr ''10.0.0.2''))"
    using d h v g by (intro exI conjI)
  then show ?thesis using create_sw1_twice by (intro conjI)
qed

text \<open>
  C4, as the code has it. A field that is present and empty is no error and shows as null
  or empty in the output, that is, in the record \<^verbatim>\<open>_process_devices\<close> builds for the device
  and in the hostvars entry the formatter builds from that record. For a device with an id
  and a name, whenever the other lookups of the device succeed:
  \<^item> a device detail with \<^verbatim>\<open>primary_ip\<close> null gives the record with \<^verbatim>\<open>ansible_ssh_host\<close> null
    and the entry with \<^verbatim>\<open>ansible_host\<close> null;
  \<^item> a device detail whose \<^verbatim>\<open>custom_fields\<close> is null, an empty dictionary or any other false
    value, or holds \<^verbatim>\<open>ASN\<close> null, gives the record with \<^verbatim>\<open>ansible_ssh_port\<close> null and the
    entry with \<^verbatim>\<open>ansible_port\<close> null;
  \<^item> an interface listing in which every interface either has \<^verbatim>\<open>tagged_vlans\<close> null or
    empty, \<^verbatim>\<open>untagged_vlan\<close> null, a name and an id, or has VLAN data that is read without
    error, gives the record and the entry with one \<^verbatim>\<open>vlans\<close> element per interface, and the
    element of each interface without VLAN data has \<^verbatim>\<open>tagged_vlans = []\<close> and
    \<^verbatim>\<open>untagged_vlan = null\<close>.
  In each case the record is built: nothing is raised.
\<close>

theorem missing_optional_fields:
  assumes id: "getitem device ''id'' = Inr device_id"
    and name: "getitem device ''name'' = Inr name"
    and ifs: "device_interfaces self device_id cs = (Inr interfaces, cs_if)"
    and seq: "py_iter interfaces = Inr interface_seq"
    and ips: "io_for_each (interface_hash self) interface_seq cs_port = (Inr int_list, cs')"
  shows
    "(process_interface_vlans self device_id cs_if = (Inr vlans, cs_vl) \<and>
      api_call self (Device device_id) cs_vl = (Inr detail, cs_ip) \<and>
      getitem detail ''primary_ip'' = Inr PNone \<and>
      device_ssh_port self device_id cs_ip = (Inr ssh_port, cs_port) \<longrightarrow>
        (\<exists>h entry. device_hash self device cs = (Inr h, cs') \<and>
           getitem h ''ansible_ssh_host'' = Inr PNone \<and>
           hostvars_entry h = Inr entry \<and> getitem entry ''ansible_host'' = Inr PNone)) \<and>
     (process_interface_vlans self device_id cs_if = (Inr vlans, cs_vl) \<and>
      device_primary_ip self device_id cs_vl = (Inr device_ip, cs_ip) \<and>
      api_call self (Device device_id) cs_ip = (Inr detail, cs_port) \<and>
      getitem detail ''custom_fields'' = Inr custom_fields \<and>
      (\<not> truthy custom_fields \<or> getitem custom_fields ''ASN'' = Inr PNone) \<longrightarrow>
        (\<exists>h entry. device_hash self device cs = (Inr h, cs') \<and>
           getitem h ''ansible_ssh_port'' = Inr PNone \<and>
           hostvars_entry h = Inr entry \<and> getitem entry ''ansible_port'' = Inr PNone)) \<and>
     (device_interfaces self device_id cs_if = (Inr (PList listed), cs_vl) \<and>
      (\<forall>x \<in> set listed.
         ((getitem x ''tagged_vlans'' = Inr PNone \<or> getitem x ''tagged_vlans'' = Inr (PList [])) \<and>
          getitem x ''untagged_vlan'' = Inr PNone \<and>
          (\<exists>n. getitem x ''name'' = Inr n) \<and> (\<exists>i. getitem x ''id'' = Inr i)) \<or>
         (\<exists>v. vlan_map x = Inr v)) \<and>
      device_primary_ip self device_id cs_vl = (Inr device_ip, cs_ip) \<and>
      device_ssh_port self device_id cs_ip = (Inr ssh_port, cs_port) \<longrightarrow>
        (\<exists>h vl entry. device_hash self device cs = (Inr h, cs') \<and>
           getitem h ''vlans'' = Inr (PList vl) \<and> length vl = length listed \<and>
           (\<forall>k < length listed.
              (getitem (listed ! k) ''tagged_vlans'' = Inr PNone \<or>
               getitem (listed ! k) ''tagged_vlans'' = Inr (PList [])) \<and>
              getitem (listed ! k) ''untagged_vlan'' = Inr PNone \<longrightarrow>
                getitem (vl ! k) ''tagged_vlans'' = Inr (PList []) \<and>
                getitem (vl ! k) ''untagged_vlan'' = Inr PNone) \<and>
           hostvars_entry h = Inr entry \<and> getitem entry ''vlans'' = Inr (PList vl)))"
proof (intro conjI impI)
  assume a: "process_interface_vlans self device_id cs_if = (Inr vlans, cs_vl) \<and>
      api_call self (Device device_id) cs_vl = (Inr detail, cs_ip) \<and>
      getitem detail ''primary_ip'' = Inr PNone \<and>
      device_ssh_port self device_id cs_ip = (Inr ssh_port, cs_port)"
  then have "primary_ip_of detail = Inr PNone" by (simp add: primary_ip_of_def)
  with a have dp: "device_primary_ip self device_id cs_vl = (Inr PNone, cs_ip)"
    by (simp add: device_primary_ip_def io_bind_apply)
  from a have pv: "process_interface_vlans self device_id cs_if = (Inr vlans, cs_vl)"
    and sp: "device_ssh_port self device_id cs_ip = (Inr ssh_port, cs_port)" by simp_all
  show "\<exists>h entry. device_hash self device cs = (Inr h, cs') \<and>
           getitem h ''ansible_ssh_host'' = Inr PNone \<and>
           hostvars_entry h = Inr entry \<and> getitem entry ''ansible_host'' = Inr PNone"
    by (intro exI conjI)
       (rule device_hashI [OF id ifs pv dp sp seq ips name], rule device_hash_fields,
        rule hostvars_entry_device_hash, rule hostvars_entry_fields)
next
  assume a: "process_interface_vlans self device_id cs_if = (Inr vlans, cs_vl) \<and>
      device_primary_ip self device_id cs_vl = (Inr device_ip, cs_ip) \<and>
      api_call self (Device device_id) cs_ip = (Inr detail, cs_port) \<and>
      getitem detail ''custom_fields'' = Inr custom_fields \<and>
      (\<not> truthy custom_fields \<or> getitem custom_fields ''ASN'' = Inr PNone)"
  then have "ssh_port_of detail = Inr PNone" by (auto simp: ssh_port_of_def)
  with a have sp: "device_ssh_port self device_id cs_ip = (Inr PNone, cs_port)"
    by (simp add: device_ssh_port_def io_bind_apply)
  from a have pv: "process_interface_vlans self device_id cs_if = (Inr vlans, cs_vl)"
    and dp: "device_primary_ip self device_id cs_vl = (Inr device_ip, cs_ip)" by simp_all
  show "\<exists>h entry. device_hash self device cs = (Inr h, cs') \<and>
           getitem h ''ansible_ssh_port'' = Inr PNone \<and>
           hostvars_entry h = Inr entry \<and> getitem entry ''ansible_port'' = Inr PNone"
    by (intro exI conjI)
       (rule device_hashI [OF id ifs pv dp sp seq ips name], rule device_hash_fields,
        rule hostvars_entry_device_hash, rule hostvars_entry_fields)
next
  assume a: "device_interfaces self device_id cs_if = (Inr (PList listed), cs_vl) \<and>
      (\<forall>x \<in> set listed.
         ((getitem x ''tagged_vlans'' = Inr PNone \<or> getitem x ''tagged_vlans'' = Inr (PList [])) \<and>
          getitem x ''untagged_vlan'' = Inr PNone \<and>
          (\<exists>n. getitem x ''name'' = Inr n) \<and> (\<exists>i. getitem x ''id'' = Inr i)) \<or>
         (\<exists>v. vlan_map x = Inr v)) \<and>
      device_primary_ip self device_id cs_vl = (Inr device_ip, cs_ip) \<and>
      device_ssh_port self device_id cs_ip = (Inr ssh_port, cs_port)"
  have "\<exists>v. vlan_map x = Inr v" if x: "x \<in> set listed" for x
  proof -
    from a x consider
      (none) "(getitem x ''tagged_vlans'' = Inr PNone \<or> getitem x ''tagged_vlans'' = Inr (PList [])) \<and>
          getitem x ''untagged_vlan'' = Inr PNone \<and>
          (\<exists>n. getitem x ''name'' = Inr n) \<and> (\<exists>i. getitem x ''id'' = Inr i)"
      | (some) "\<exists>v. vlan_map x = Inr v"
      by blast
    then show ?thesis
    proof cases
      case none
      then obtain tagged n i where
        "getitem x ''tagged_vlans'' = Inr tagged" "\<not> truthy tagged"
        "getitem x ''untagged_vlan'' = Inr PNone" "getitem x ''name'' = Inr n"
        "getitem x ''id'' = Inr i"
        by auto
      then have "vlan_map x =
          Inr (PDict [(PStr ''interface'', n), (PStr ''int_id'', i),
                      (PStr ''untagged_vlan'', PNone), (PStr ''tagged_vlans'', PList [])])"
        by (intro vlan_map_no_vlans [where tagged = tagged and untagged = PNone]) simp_all
      then show ?thesis by blast
    next
      case some
      then show ?thesis .
    qed
  qed
  then have "\<exists>vl. for_each vlan_map listed = Inr vl"
    by (intro for_each_total) blast
  then obtain vl where vl: "for_each vlan_map listed = Inr vl" ..
  then have all2: "list_all2 (\<lambda>x y. vlan_map x = Inr y) listed vl"
    by (simp add: for_each_Inr_iff)
  then have len: "length vl = length listed"
    by (simp add: list_all2_lengthD)
  have each: "getitem (vl ! k) ''tagged_vlans'' = Inr (PList []) \<and>
              getitem (vl ! k) ''untagged_vlan'' = Inr PNone"
    if "k < length listed"
      and "(getitem (listed ! k) ''tagged_vlans'' = Inr PNone \<or>
            getitem (listed ! k) ''tagged_vlans'' = Inr (PList [])) \<and>
           getitem (listed ! k) ''untagged_vlan'' = Inr PNone" for k
  proof -
    from all2 that(1) have "vlan_map (listed ! k) = Inr (vl ! k)"
      by (simp add: list_all2_conv_all_nth)
    from vlan_map_no_vlans_Inr [OF this] that(2) show ?thesis by blast
  qed
  have pv: "process_interface_vlans self device_id cs_if = (Inr vl, cs_vl)"
    using a vl by (simp add: process_interface_vlans_def io_bind_apply)
  have dp: "device_primary_ip self device_id cs_vl = (Inr device_ip, cs_ip)"
    and sp: "device_ssh_port self device_id cs_ip = (Inr ssh_port, cs_port)"
    using a by simp_all
  let ?h = "PDict [(PStr ''id'', device_id),
                   (PStr ''ansible_ssh_host'', device_ip),
                   (PStr ''ansible_ssh_port'', ssh_port),
                   (PStr ''name'', name),
                   (PStr ''interfaces'', PList int_list),
                   (PStr ''vlans'', PList vl)]"
  let ?e = "PDict [(PStr ''ansible_host'', device_ip),
                 (PStr ''ansible_port'', ssh_port),
                 (PStr ''interfaces'', PList int_list),
                 (PStr ''vlans'', PList vl)]"
  show "\<exists>h vl entry. device_hash self device cs = (Inr h, cs') \<and>
           getitem h ''vlans'' = Inr (PList vl) \<and> length vl = length listed \<and>
           (\<forall>k < length listed.
              (getitem (listed ! k) ''tagged_vlans'' = Inr PNone \<or>
               getitem (listed ! k) ''tagged_vlans'' = Inr (PList [])) \<and>
              getitem (listed ! k) ''untagged_vlan'' = Inr PNone \<longrightarrow>
                getitem (vl ! k) ''tagged_vlans'' = Inr (PList []) \<and>
                getitem (vl ! k) ''untagged_vlan'' = Inr PNone) \<and>
           hostvars_entry h = Inr entry \<and> getitem entry ''vlans'' = Inr (PList vl)"
  proof (intro exI conjI)
    show "device_hash self device cs = (Inr ?h, cs')"
      by (rule device_hashI [OF id ifs pv dp sp seq ips name])
    show "getitem ?h ''vlans'' = Inr (PList vl)" by (rule device_hash_fields)
    show "length vl = length listed" by (rule len)
    show "\<forall>k < length listed.
              (getitem (listed ! k) ''tagged_vlans'' = Inr PNone \<or>
               getitem (listed ! k) ''tagged_vlans'' = Inr (PList [])) \<and>
              getitem (listed ! k) ''untagged_vlan'' = Inr PNone \<longrightarrow>
                getitem (vl ! k) ''tagged_vlans'' = Inr (PList []) \<and>
                getitem (vl ! k) ''untagged_vlan'' = Inr PNone"
      using each by blast
    show "hostvars_entry ?h = Inr ?e" by (rule hostvars_entry_device_hash)
    show "getitem ?e ''vlans'' = Inr (PList vl)" by (rule hostvars_entry_fields)
  qed
qed

text \<open>
  The statement above at a device whose detail is
  \<^verbatim>\<open>{primary_ip: null, custom_fields: {ASN: null}}\<close> and whose second interface \<^verbatim>\<open>eth1\<close> has
  \<^verbatim>\<open>tagged_vlans: null\<close>, next to an interface \<^verbatim>\<open>eth0\<close> with VLANs.
\<close>

theorem missing_optional_fields_witness:
  "(\<exists>h entry.
      device_hash (lab mixed_server) sw1_listed [Devices] =
        (Inr h, [Devices, Interfaces (PInt 1), Interfaces (PInt 1), Device (PInt 1),
                 Device (PInt 1), IpAddresses (PInt 10), IpAddresses (PInt 11)]) \<and>
      getitem h ''ansible_ssh_host'' = Inr PNone \<and>
      hostvars_entry h = Inr entry \<and> getitem entry ''ansible_host'' = Inr PNone) \<and>
   (\<exists>h entry.
      device_hash (lab mixed_server) sw1_listed [Devices] =
        (Inr h, [Devices, Interfaces (PInt 1), Interfaces (PInt 1), Device (PInt 1),
                 Device (PInt 1), IpAddresses (PInt 10), IpAddresses (PInt 11)]) \<and>
      getitem h ''ansible_ssh_port'' = Inr PNone \<and>
      hostvars_entry h = Inr entry \<and> getitem entry ''ansible_port'' = Inr PNone) \<and>
   (\<exists>h vl entry.
      device_hash (lab mixed_server) sw1_listed [Devices] =
        (Inr h, [Devices, Interfaces (PInt 1), Interfaces (PInt 1), Device (PInt 1),
                 Device (PInt 1), IpAddresses (PInt 10), IpAddresses (PInt 11)]) \<and>
      getitem h ''vlans'' = Inr (PList vl) \<and> length vl = 2 \<and>
      getitem (vl ! 1) ''tagged_vlans'' = Inr (PList []) \<and>
      getitem (vl ! 1) ''untagged_vlan'' = Inr PNone \<and>
      hostvars_entry h = Inr entry \<and> getitem entry ''vlans'' = Inr (PList vl))"
proof -
  let ?self = "lab mixed_server"
  let ?eth0 = "PDict [(PStr ''id'', PInt 10), (PStr ''name'', PStr ''eth0''),
                        (PStr ''tagged_vlans'', PList [PDict [(PStr ''vid'', PInt 100)]]),
                        (PStr ''untagged_vlan'', PDict [(PStr ''vid'', PInt 1)])]"
  let ?listed = "[?eth0, bare_interface 11 ''eth1'' PNone]"
  let ?vlans = "[PDict [(PStr ''interface'', PStr ''eth0''), (PStr ''int_id'', PInt 10),
                        (PStr ''untagged_vlan'', PInt 1), (PStr ''tagged_vlans'', PList [PInt 100])],
                 PDict [(PStr ''interface'', PStr ''eth1''), (PStr ''int_id'', PInt 11),
                        (PStr ''untagged_vlan'', PNone), (PStr ''tagged_vlans'', PList [])]]"
  let ?detail = "PDict [(PStr ''primary_ip'', PNone),
                        (PStr ''custom_fields'', PDict [(PStr ''ASN'', PNone)])]"
  let ?c1 = "[Devices, Interfaces (PInt 1)]"
  let ?c2 = "[Devices, Interfaces (PInt 1), Interfaces (PInt 1)]"
  let ?c3 = "[Devices, Interfaces (PInt 1), Interfaces (PInt 1), Device (PInt 1)]"
  let ?c4 = "[Devices, Interfaces (PInt 1), Interfaces (PInt 1), Device (PInt 1), Device (PInt 1)]"
  let ?c5 = "[Devices, Interfaces (PInt 1), Interfaces (PInt 1), Device (PInt 1),
              Device (PInt 1), IpAddresses (PInt 10), IpAddresses (PInt 11)]"
  let ?ints = "[PDict [(PStr ''interface_name'', PStr ''eth0''), (PStr ''interface_id'', PInt 10),
                       (PStr ''ip_address'', PList [])],
                PDict [(PStr ''interface_name'', PStr ''eth1''), (PStr ''interface_id'', PInt 11),
                       (PStr ''ip_address'', PList [])]]"
  have 1: "getitem sw1_listed ''id'' = Inr (PInt 1)"
    and 2: "getitem sw1_listed ''name'' = Inr (PStr ''sw1'')"
    by (simp_all add: sw1_listed_def key_eq_def)
  have 3: "device_interfaces ?self (PInt 1) [Devices] = (Inr (PList ?listed), ?c1)"
    by (simp add: run_defs mixed_server_def)
  have 4: "py_iter (PList ?listed) = Inr ?listed" by simp
  have 5: "io_for_each (interface_hash ?self) ?listed ?c4 = (Inr ?ints, ?c5)"
    by (simp add: run_defs mixed_server_def bare_interface_def)
  have pv: "process_interface_vlans ?self (PInt 1) ?c1 = (Inr ?vlans, ?c2)"
    by (simp add: run_defs mixed_server_def bare_interface_def)
  have d1: "api_call ?self (Device (PInt 1)) ?c2 = (Inr ?detail, ?c3)"
    and d2: "api_call ?self (Device (PInt 1)) ?c3 = (Inr ?detail, ?c4)"
    by (simp_all add: run_defs mixed_server_def)
  have dp: "device_primary_ip ?self (PInt 1) ?c2 = (Inr PNone, ?c3)"
    and sp: "device_ssh_port ?self (PInt 1) ?c3 = (Inr PNone, ?c4)"
    by (simp_all add: run_defs mixed_server_def)
  have n: "getitem ?detail ''primary_ip'' = Inr PNone"
    and f: "getitem ?detail ''custom_fields'' = Inr (PDict [(PStr ''ASN'', PNone)])"
    and asn: "getitem (PDict [(PStr ''ASN'', PNone)]) ''ASN'' = Inr PNone"
    by (simp_all add: key_eq_def)
  have l2: "device_interfaces ?self (PInt 1) ?c1 = (Inr (PList ?listed), ?c2)"
    by (simp add: run_defs mixed_server_def)
  have v0: "\<exists>v. vlan_map ?eth0 = Inr v"
    by (simp add: vlan_map_def key_eq_def)
  have e1: "(getitem (bare_interface 11 ''eth1'' PNone) ''tagged_vlans'' = Inr PNone \<or>
             getitem (bare_interface 11 ''eth1'' PNone) ''tagged_vlans'' = Inr (PList [])) \<and>
            getitem (bare_interface 11 ''eth1'' PNone) ''untagged_vlan'' = Inr PNone \<and>
            (\<exists>n. getitem (bare_interface 11 ''eth1'' PNone) ''name'' = Inr n) \<and>
            (\<exists>i. getitem (bare_interface 11 ''eth1'' PNone) ''id'' = Inr i)"
    by (simp add: bare_interface_def key_eq_def)
  have each: "\<forall>x \<in> set ?listed.
         ((getitem x ''tagged_vlans'' = Inr PNone \<or> getitem x ''tagged_vlans'' = Inr (PList [])) \<and>
          getitem x ''untagged_vlan'' = Inr PNone \<and>
          (\<exists>n. getitem x ''name'' = Inr n) \<and> (\<exists>i. getitem x ''id'' = Inr i)) \<or>
         (\<exists>v. vlan_map x = Inr v)"
    using v0 e1 by simp
  from missing_optional_fields [OF 1 2 3 4 5,
      where vlans = ?vlans and cs_vl = ?c2 and detail = ?detail and cs_ip = ?c3
        and ssh_port = PNone and device_ip = PNone
        and custom_fields = "PDict [(PStr ''ASN'', PNone)]" and listed = ?listed]
  have a: "\<exists>h entry. device_hash ?self sw1_listed [Devices] = (Inr h, ?c5) \<and>
           getitem h ''ansible_ssh_host'' = Inr PNone \<and>
           hostvars_entry h = Inr entry \<and> getitem entry ''ansible_host'' = Inr PNone"
    and b: "\<exists>h entry. device_hash ?self sw1_listed [Devices] = (Inr h, ?c5) \<and>
           getitem h ''ansible_ssh_port'' = Inr PNone \<and>
           hostvars_entry h = Inr entry \<and> getitem entry ''ansible_port'' = Inr PNone"
    and c: "\<exists>h vl entry. device_hash ?self sw1_listed [Devices] = (Inr h, ?c5) \<and>
           getitem h ''vlans'' = Inr (PList vl) \<and> length vl = length ?listed \<and>
           (\<forall>k < length ?listed.
              (getitem (?listed ! k) ''tagged_vlans'' = Inr PNone \<or>
               getitem (?listed ! k) ''tagged_vlans'' = Inr (PList [])) \<and>
              getitem (?listed ! k) ''untagged_vlan'' = Inr PNone \<longrightarrow>
                getitem (vl ! k) ''tagged_vlans'' = Inr (PList []) \<and>
                getitem (vl ! k) ''untagged_vlan'' = Inr PNone) \<and>
           hostvars_entry h = Inr entry \<and> getitem entry ''vlans'' = Inr (PList vl)"
    using pv d1 d2 dp sp n f asn l2 each by blast+
  from c obtain h vl entry where
    c1: "device_hash ?self sw1_listed [Devices] = (Inr h, ?c5)"
    and c2: "getitem h ''vlans'' = Inr (PList vl)" and c3: "length vl = length ?listed"
    and c4: "\<forall>k < length ?listed.
              (getitem (?listed ! k) ''tagged_vlans'' = Inr PNone \<or>
               getitem (?listed ! k) ''tagged_vlans'' = Inr (PList [])) \<and>
              getitem (?listed ! k) ''untagged_vlan'' = Inr PNone \<longrightarrow>
                getitem (vl ! k) ''tagged_vlans'' = Inr (PList []) \<and>
                getitem (vl ! k) ''untagged_vlan'' = Inr PNone"
    and c5: "hostvars_entry h = Inr entry" and c6: "getitem entry ''vlans'' = Inr (PList vl)"
    by (elim exE conjE)
  have k1: "(1::nat) < length ?listed" by simp
  have "(getitem (?listed ! 1) ''tagged_vlans'' = Inr PNone \<or>
         getitem (?listed ! 1) ''tagged_vlans'' = Inr (PList [])) \<and>
        getitem (?listed ! 1) ''untagged_vlan'' = Inr PNone"
    using e1 by simp
  with c4 k1 have c7: "getitem (vl ! 1) ''tagged_vlans'' = Inr (PList []) \<and>
                       getitem (vl ! 1) ''untagged_vlan'' = Inr PNone"
    by blast
  have c8: "length vl = 2" using c3 by simp
  have "\<exists>h vl entry.
      device_hash ?self sw1_listed [Devices] = (Inr h, ?c5) \<and>
      getitem h ''vlans'' = Inr (PList vl) \<and> length vl = 2 \<and>
      getitem (vl ! 1) ''tagged_vlans'' = Inr (PList []) \<and>
      getitem (vl ! 1) ''untagged_vlan'' = Inr PNone \<and>
      hostvars_entry h = Inr entry \<and> getitem entry ''vlans'' = Inr (PList vl)"
    using c1 c2 c8 c7 c5 c6 by (intro exI [of _ h] exI [of _ vl] exI [of _ entry]) simp
  with a b show ?thesis by (intro conjI)
qed

text \<open>
  C4 as stated fails for other shapes of absent custom-field data: a device detail without
  the key \<^verbatim>\<open>custom_fields\<close>, and a device detail whose \<^verbatim>\<open>custom_fields\<close> holds some field but
  not \<^verbatim>\<open>ASN\<close>. Both raise \<^verbatim>\<open>KeyError\<close>: no record is built, and in list mode the run ends
  there and prints nothing.
\<close>

theorem other_custom_field_counterexample:
  "ssh_port_of (PDict [(PStr ''primary_ip'', PNone)]) = Inl KeyError \<and>
   device_hash (lab other_field_server) sw1_listed [Devices] =
     (Inl KeyError,
      [Devices, Interfaces (PInt 1), Interfaces (PInt 1), Device (PInt 1), Device (PInt 1)]) \<and>
   main other_field_server list_args =
     \<lparr>raised = Some KeyError, stdout = [],
      calls = [Devices, Interfaces (PInt 1), Interfaces (PInt 1), Device (PInt 1), Device (PInt 1)]\<rparr>"
  by (simp add: run_defs other_field_server_def sw1_listed_def)

text \<open>
  C5, as the code has it. In a list-mode run that prints a document, take a device of the
  listing whose detail lookups return \<^verbatim>\<open>primary_ip\<close> null. The device is not skipped: the
  run has built one record per listed device, the record of this device carries its name
  and \<^verbatim>\<open>ansible_ssh_host\<close> null, its name is in \<^verbatim>\<open>all.hosts\<close>, and \<^verbatim>\<open>_meta.hostvars\<close> has an
  entry under its name (which \<^verbatim>\<open>json.dumps\<close> writes under the name itself when the name is
  a string, and under \<^verbatim>\<open>null\<close> for an unnamed device). That entry has \<^verbatim>\<open>ansible_host\<close> null
  provided no later device of the listing has the same name.
\<close>

theorem null_primary_ip_device_kept:
  assumes list: "arg_list a"
    and printed: "stdout (NetboxInventory self a) = [doc]"
    and listing: "session self 0 Devices = Some r0" "json_body r0 = Some listing"
      "getitem listing ''results'' = Inr (PList devices)"
    and i: "i < length devices"
    and dev: "getitem (devices ! i) ''id'' = Inr device_id"
      "getitem (devices ! i) ''name'' = Inr name"
    and null: "\<forall>n. \<exists>r detail. session self n (Device device_id) = Some r \<and>
                 json_body r = Some detail \<and> getitem detail ''primary_ip'' = Inr PNone"
  shows "\<exists>hashes cs hosts hostvars key entry.
           process_devices self [] = (Inr hashes, cs) \<and>
           length hashes = length devices \<and>
           getitem (hashes ! i) ''name'' = Inr name \<and>
           getitem (hashes ! i) ''ansible_ssh_host'' = Inr PNone \<and>
           path doc [''all'', ''hosts''] = Inr (PList hosts) \<and> name \<in> set hosts \<and>
           path doc [''_meta'', ''hostvars''] = Inr (PDict hostvars) \<and>
           dict_get hostvars name = Some entry \<and>
           (key, entry) \<in> set hostvars \<and> key_eq key name \<and>
           (\<forall>s. name = PStr s \<longrightarrow> dumps_key key = Inr s) \<and>
           (name = PNone \<longrightarrow> dumps_key key = Inr ''null'') \<and>
           ((\<forall>j name'. i < j \<and> j < length devices \<and>
                getitem (devices ! j) ''name'' = Inr name' \<longrightarrow> \<not> key_eq name' name) \<longrightarrow>
              getitem entry ''ansible_host'' = Inr PNone)"
proof -
  from list_mode_printed [OF list printed] obtain hashes cs where
    pd: "process_devices self [] = (Inr hashes, cs)"
    and out: "create_inventory_output hashes = Inr doc"
    by blast
  have all2: "list_all2 (\<lambda>d h. \<exists>c c'. device_hash self d c = (Inr h, c')) devices hashes"
    by (rule process_devices_records [OF pd listing])
  then have len: "length hashes = length devices"
    by (simp add: list_all2_lengthD)
  from out obtain ps where
    ps: "list_all2 (\<lambda>d p. getitem d ''name'' = Inr (fst p) \<and> hashable (fst p) \<and>
                            hostvars_entry d = Inr (snd p)) hashes ps"
    and doc: "doc = PDict [(PStr ''all'',
                     PDict [(PStr ''hosts'', PList (map fst ps)), (PStr ''vars'', all_vars)]),
                   (PStr ''_meta'', PDict [(PStr ''hostvars'',
                      PDict (fold (\<lambda>p h. dict_set h (fst p) (snd p)) ps []))])]"
    unfolding create_inventory_output_Inr by blast
  let ?hv = "fold (\<lambda>p h. dict_set h (fst p) (snd p)) ps []"
  from ps have lps: "length ps = length devices"
    using len by (simp add: list_all2_lengthD)
  have names: "getitem (devices ! j) ''name'' = Inr (fst (ps ! j))" if j: "j < length devices" for j
  proof -
    from all2 j obtain c c' where "device_hash self (devices ! j) c = (Inr (hashes ! j), c')"
      by (auto simp: list_all2_conv_all_nth)
    from device_hash_Inr [OF this] obtain nm where
      "getitem (devices ! j) ''name'' = Inr nm" "getitem (hashes ! j) ''name'' = Inr nm"
      by (auto simp: key_eq_def)
    moreover from ps j len have "getitem (hashes ! j) ''name'' = Inr (fst (ps ! j))"
      by (simp add: list_all2_conv_all_nth)
    ultimately show ?thesis by simp
  qed
  have name_i: "fst (ps ! i) = name"
    using names [OF i] dev(2) by simp
  have hname: "getitem (hashes ! i) ''name'' = Inr name"
    using ps i len name_i by (simp add: list_all2_conv_all_nth)
  from all2 i obtain c c' where "device_hash self (devices ! i) c = (Inr (hashes ! i), c')"
    by (auto simp: list_all2_conv_all_nth)
  from device_hash_Inr [OF this] dev(1) obtain c2 c3 device_ip ssh_port nm il vl where
    ip: "device_primary_ip self device_id c2 = (Inr device_ip, c3)"
    and h: "hashes ! i = PDict [(PStr ''id'', device_id),
                 (PStr ''ansible_ssh_host'', device_ip),
                 (PStr ''ansible_ssh_port'', ssh_port),
                 (PStr ''name'', nm),
                 (PStr ''interfaces'', PList il),
                 (PStr ''vlans'', PList vl)]"
    by auto
  from device_primary_ip_Inr [OF ip] obtain r b where
    "session self (length c2) (Device device_id) = Some r" "json_body r = Some b"
    "primary_ip_of b = Inr device_ip"
    by blast
  moreover from null obtain r' detail where
    "session self (length c2) (Device device_id) = Some r'" "json_body r' = Some detail"
    "getitem detail ''primary_ip'' = Inr PNone"
    by blast
  ultimately have none: "device_ip = PNone"
    by (simp add: primary_ip_of_def)
  have host: "getitem (hashes ! i) ''ansible_ssh_host'' = Inr PNone"
    unfolding h none by (rule device_hash_fields)
  have "hostvars_entry (hashes ! i) =
      Inr (PDict [(PStr ''ansible_host'', PNone), (PStr ''ansible_port'', ssh_port),
                  (PStr ''interfaces'', PList il), (PStr ''vlans'', PList vl)])"
    unfolding h none by (rule hostvars_entry_device_hash)
  moreover from ps i len have "hostvars_entry (hashes ! i) = Inr (snd (ps ! i))"
    by (simp add: list_all2_conv_all_nth)
  ultimately have entry_i: "getitem (snd (ps ! i)) ''ansible_host'' = Inr PNone"
    by (simp add: key_eq_def)
  have i': "i < length ps" using i lps by simp
  have mem: "name \<in> set (map fst ps)"
    using i' name_i by (metis length_map nth_map nth_mem)
  have "key_norm name \<in> key_norm ` fst ` set ?hv"
    using mem by (simp add: keys_fold)
  then obtain entry where get: "dict_get ?hv name = Some entry"
    using dict_get_None_iff [of ?hv name] by (cases "dict_get ?hv name") auto
  from dict_get_SomeD [OF get] obtain key where
    key: "(key, entry) \<in> set ?hv" "key_eq key name"
    by blast
  have k1: "\<forall>s. name = PStr s \<longrightarrow> dumps_key key = Inr s"
  proof (intro allI impI)
    fix s assume "name = PStr s"
    with key(2) have "key = PStr s" by (simp add: key_eq_PStr)
    then show "dumps_key key = Inr s" by simp
  qed
  have k2: "name = PNone \<longrightarrow> dumps_key key = Inr ''null''"
  proof
    assume "name = PNone"
    with key(2) have "key = PNone" by (simp add: key_eq_PNone)
    then show "dumps_key key = Inr ''null''" by simp
  qed
  have last: "getitem entry ''ansible_host'' = Inr PNone"
    if l: "\<forall>j name'. i < j \<and> j < length devices \<and>
             getitem (devices ! j) ''name'' = Inr name' \<longrightarrow> \<not> key_eq name' name"
  proof -
    have "\<forall>j. i < j \<and> j < length ps \<longrightarrow> \<not> key_eq (fst (ps ! j)) (fst (ps ! i))"
    proof (intro allI impI)
      fix j assume j: "i < j \<and> j < length ps"
      then have "getitem (devices ! j) ''name'' = Inr (fst (ps ! j))"
        using names [of j] lps by simp
      with l j lps show "\<not> key_eq (fst (ps ! j)) (fst (ps ! i))"
        unfolding name_i by auto
    qed
    from dict_get_fold_last [OF i' this, of "[]"]
    have "dict_get ?hv name = Some (snd (ps ! i))"
      unfolding name_i .
    with get entry_i show ?thesis by simp
  qed
  show ?thesis
  proof (intro exI conjI)
    show "process_devices self [] = (Inr hashes, cs)" by (rule pd)
    show "length hashes = length devices" by (rule len)
    show "getitem (hashes ! i) ''name'' = Inr name" by (rule hname)
    show "getitem (hashes ! i) ''ansible_ssh_host'' = Inr PNone" by (rule host)
    show "path doc [''all'', ''hosts''] = Inr (PList (map fst ps))"
      unfolding doc by (rule path_all_hosts)
    show "name \<in> set (map fst ps)" by (rule mem)
    show "path doc [''_meta'', ''hostvars''] = Inr (PDict ?hv)"
      unfolding doc by (rule path_meta_hostvars)
    show "dict_get ?hv name = Some entry" by (rule get)
    show "(key, entry) \<in> set ?hv" by (rule key(1))
    show "key_eq key name" by (rule key(2))
    show "\<forall>s. name = PStr s \<longrightarrow> dumps_key key = Inr s" by (rule k1)
    show "name = PNone \<longrightarrow> dumps_key key = Inr ''null''" by (rule k2)
    show "(\<forall>j name'. i < j \<and> j < length devices \<and>
                getitem (devices ! j) ''name'' = Inr name' \<longrightarrow> \<not> key_eq name' name) \<longrightarrow>
              getitem entry ''ansible_host'' = Inr PNone"
      using last by blast
  qed
qed

text \<open>
  The statement above at the single device \<^verbatim>\<open>sw1\<close> without a primary address, where the
  entry has \<^verbatim>\<open>ansible_host\<close> null, and at the first of two devices named \<^verbatim>\<open>sw1\<close>, where
  the device is kept although the entry under its name is the second one's.
\<close>

theorem null_primary_ip_device_kept_witness:
  "(\<exists>doc hashes cs hosts hostvars key entry.
      stdout (main bare_server list_args) = [doc] \<and>
      process_devices (lab bare_server) [] = (Inr hashes, cs) \<and> length hashes = 1 \<and>
      getitem (hashes ! 0) ''ansible_ssh_host'' = Inr PNone \<and>
      path doc [''all'', ''hosts''] = Inr (PList hosts) \<and> PStr ''sw1'' \<in> set hosts \<and>
      path doc [''_meta'', ''hostvars''] = Inr (PDict hostvars) \<and>
      dict_get hostvars (PStr ''sw1'') = Some entry \<and> (key, entry) \<in> set hostvars \<and>
      dumps_key key = Inr ''sw1'' \<and> getitem entry ''ansible_host'' = Inr PNone) \<and>
   (\<exists>hashes cs hosts hostvars key entry.
      stdout (main twins_server list_args) = [twins_doc] \<and>
      process_devices (lab twins_server) [] = (Inr hashes, cs) \<and> length hashes = 2 \<and>
      getitem (hashes ! 0) ''ansible_ssh_host'' = Inr PNone \<and>
      path twins_doc [''all'', ''hosts''] = Inr (PList hosts) \<and> PStr ''sw1'' \<in> set hosts \<and>
      path twins_doc [''_meta'', ''hostvars''] = Inr (PDict hostvars) \<and>
      dict_get hostvars (PStr ''sw1'') = Some entry \<and> (key, entry) \<in> set hostvars \<and>
      dumps_key key = Inr ''sw1'')"
proof -
  have 1: "arg_list list_args" by (simp add: list_args_def)
  have first: "\<exists>doc hashes cs hosts hostvars key entry.
      stdout (main bare_server list_args) = [doc] \<and>
      process_devices (lab bare_server) [] = (Inr hashes, cs) \<and> length hashes = 1 \<and>
      getitem (hashes ! 0) ''ansible_ssh_host'' = Inr PNone \<and>
      path doc [''all'', ''hosts''] = Inr (PList hosts) \<and> PStr ''sw1'' \<in> set hosts \<and>
      path doc [''_meta'', ''hostvars''] = Inr (PDict hostvars) \<and>
      dict_get hostvars (PStr ''sw1'') = Some entry \<and> (key, entry) \<in> set hostvars \<and>
      dumps_key key = Inr ''sw1'' \<and> getitem entry ''ansible_host'' = Inr PNone"
  proof -
    let ?devices = "[PDict [(PStr ''id'', PInt 1), (PStr ''name'', PStr ''sw1'')]]"
    let ?listing = "PDict [(PStr ''results'', PList ?devices)]"
    have "\<exists>doc. stdout (main bare_server list_args) = [doc]"
      by (simp add: run_defs bare_server_def bare_interface_def)
    then obtain doc where d: "stdout (main bare_server list_args) = [doc]" ..
    have 2: "stdout (NetboxInventory (lab bare_server) list_args) = [doc]"
      using d by (simp add: main_def lab_def)
    have 3: "session (lab bare_server) 0 Devices =
               Some \<lparr>status_code = 200, json_body = Some ?listing\<rparr>"
      by (simp add: lab_def bare_server_def ok_def)
    have 4: "json_body \<lparr>status_code = 200, json_body = Some ?listing\<rparr> = Some ?listing"
      by simp
    have 5: "getitem ?listing ''results'' = Inr (PList ?devices)" by (simp add: key_eq_def)
    have 6: "0 < length ?devices" by simp
    have 7: "getitem (?devices ! 0) ''id'' = Inr (PInt 1)" by (simp add: key_eq_def)
    have 8: "getitem (?devices ! 0) ''name'' = Inr (PStr ''sw1'')" by (simp add: key_eq_def)
    have 9: "\<forall>n. \<exists>r detail. session (lab bare_server) n (Device (PInt 1)) = Some r \<and>
                   json_body r = Some detail \<and> getitem detail ''primary_ip'' = Inr PNone"
      by (simp add: lab_def bare_server_def ok_def key_eq_def)
    have 10: "\<forall>j name'. 0 < j \<and> j < length ?devices \<and>
                   getitem (?devices ! j) ''name'' = Inr name' \<longrightarrow> \<not> key_eq name' (PStr ''sw1'')"
      by simp
    from null_primary_ip_device_kept [OF 1 2 3 4 5 6 7 8 9]
    obtain hashes cs hosts hostvars key entry where
      a: "process_devices (lab bare_server) [] = (Inr hashes, cs)"
      and b: "length hashes = length ?devices"
      and c: "getitem (hashes ! 0) ''ansible_ssh_host'' = Inr PNone"
      and e: "path doc [''all'', ''hosts''] = Inr (PList hosts)" "PStr ''sw1'' \<in> set hosts"
      and f: "path doc [''_meta'', ''hostvars''] = Inr (PDict hostvars)"
      and g: "dict_get hostvars (PStr ''sw1'') = Some entry" "(key, entry) \<in> set hostvars"
      and k: "\<forall>s. PStr ''sw1'' = PStr s \<longrightarrow> dumps_key key = Inr s"
      and l: "(\<forall>j name'. 0 < j \<and> j < length ?devices \<and>
                 getitem (?devices ! j) ''name'' = Inr name' \<longrightarrow> \<not> key_eq name' (PStr ''sw1'')) \<longrightarrow>
              getitem entry ''ansible_host'' = Inr PNone"
      by (elim exE conjE)
    have b': "length hashes = 1" using b by simp
    have k': "dumps_key key = Inr ''sw1''" using k by simp
    have l': "getitem entry ''ansible_host'' = Inr PNone" using l 10 by blast
    show ?thesis
      using d a b' c e f g k' l' by (intro exI conjI)
  qed
  have second: "\<exists>hashes cs hosts hostvars key entry.
      stdout (main twins_server list_args) = [twins_doc] \<and>
      process_devices (lab twins_server) [] = (Inr hashes, cs) \<and> length hashes = 2 \<and>
      getitem (hashes ! 0) ''ansible_ssh_host'' = Inr PNone \<and>
      path twins_doc [''all'', ''hosts''] = Inr (PList hosts) \<and> PStr ''sw1'' \<in> set hosts \<and>
      path twins_doc [''_meta'', ''hostvars''] = Inr (PDict hostvars) \<and>
      dict_get hostvars (PStr ''sw1'') = Some entry \<and> (key, entry) \<in> set hostvars \<and>
      dumps_key key = Inr ''sw1''"
  proof -
    let ?devices = "[PDict [(PStr ''id'', PInt 1), (PStr ''name'', PStr ''sw1'')],
                     PDict [(PStr ''id'', PInt 2), (PStr ''name'', PStr ''sw1'')]]"
    let ?listing = "PDict [(PStr ''results'', PList ?devices)]"
    have d: "stdout (main twins_server list_args) = [twins_doc]"
      by (simp add: run_defs twins_server_def twins_doc_def)
    have 2: "stdout (NetboxInventory (lab twins_server) list_args) = [twins_doc]"
      using d by (simp add: main_def lab_def)
    have 3: "session (lab twins_server) 0 Devices =
               Some \<lparr>status_code = 200, json_body = Some ?listing\<rparr>"
      by (simp add: lab_def twins_server_def ok_def)
    have 4: "json_body \<lparr>status_code = 200, json_body = Some ?listing\<rparr> = Some ?listing"
      by simp
    have 5: "getitem ?listing ''results'' = Inr (PList ?devices)" by (simp add: key_eq_def)
    have 6: "0 < length ?devices" by simp
    have 7: "getitem (?devices ! 0) ''id'' = Inr (PInt 1)" by (simp add: key_eq_def)
    have 8: "getitem (?devices ! 0) ''name'' = Inr (PStr ''sw1'')" by (simp add: key_eq_def)
    have 9: "\<forall>n. \<exists>r detail. session (lab twins_server) n (Device (PInt 1)) = Some r \<and>
                   json_body r = Some detail \<and> getitem detail ''primary_ip'' = Inr PNone"
      by (simp add: lab_def twins_server_def ok_def key_eq_def)
    from null_primary_ip_device_kept [OF 1 2 3 4 5 6 7 8 9]
    obtain hashes cs hosts hostvars key entry where
      a: "process_devices (lab twins_server) [] = (Inr hashes, cs)"
      and b: "length hashes = length ?devices"
      and c: "getitem (hashes ! 0) ''ansible_ssh_host'' = Inr PNone"
      and e: "path twins_doc [''all'', ''hosts''] = Inr (PList hosts)" "PStr ''sw1'' \<in> set hosts"
      and f: "path twins_doc [''_meta'', ''hostvars''] = Inr (PDict hostvars)"
      and g: "dict_get hostvars (PStr ''sw1'') = Some entry" "(key, entry) \<in> set hostvars"
      and k: "\<forall>s. PStr ''sw1'' = PStr s \<longrightarrow> dumps_key key = Inr s"
      by (elim exE conjE)
    have b': "length hashes = 2" using b by simp
    have k': "dumps_key key = Inr ''sw1''" using k by simp
    show ?thesis
      using d a b' c e f g k' by (intro exI conjI)
  qed
  from first second show ?thesis by (rule conjI)
qed

text \<open>
  C5 as stated fails when a later device has the same name: of two devices named \<^verbatim>\<open>sw1\<close>,
  the first with \<^verbatim>\<open>primary_ip\<close> null and the second with \<^verbatim>\<open>10.0.0.2/24\<close>, the entry under
  \<^verbatim>\<open>sw1\<close> is the second one's, with \<^verbatim>\<open>ansible_host\<close> \<^verbatim>\<open>"10.0.0.2"\<close>.
\<close>

theorem duplicate_name_hides_null_host_counterexample:
  "main twins_server list_args =
     \<lparr>raised = None, stdout = [twins_doc],
      calls = [Devices,
               Interfaces (PInt 1), Interfaces (PInt 1), Device (PInt 1), Device (PInt 1),
               Interfaces (PInt 2), Interfaces (PInt 2), Device (PInt 2), Device (PInt 2)]\<rparr>
   \<and> path twins_doc [''all'', ''hosts''] = Inr (PList [PStr ''sw1'', PStr ''sw1''])
   \<and> path twins_doc [''_meta'', ''hostvars'', ''sw1'', ''ansible_host''] = Inr (PStr ''10.0.0.2'')"
  by (simp add: run_defs twins_server_def twins_doc_def)

text \<open>
  C6. When the device detail carries a primary address \<^verbatim>\<open>ip/netmask\<close>, where \<^verbatim>\<open>ip\<close> has no
  \<^verbatim>\<open>/\<close>, the management address \<^verbatim>\<open>_device_primary_ip\<close> returns is \<^verbatim>\<open>ip\<close>: the first segment
  of the address split at \<^verbatim>\<open>/\<close>.
\<close>

theorem primary_ip_strips_netmask:
  assumes "api_call self (Device device_id) cs = (Inr detail, cs')"
    and "getitem detail ''primary_ip'' = Inr p"
    and "getitem p ''address'' = Inr (PStr (ip @ CHR ''/'' # netmask))"
    and "CHR ''/'' \<notin> set ip"
  shows "device_primary_ip self device_id cs = (Inr (PStr ip), cs')
         \<and> first (split CHR ''/'' (ip @ CHR ''/'' # netmask)) = Inr ip"
proof -
  have "takeWhile (\<lambda>x. x \<noteq> CHR ''/'') (ip @ CHR ''/'' # netmask) = ip"
    using assms(4) by (induction ip) auto
  then have f: "first (split CHR ''/'' (ip @ CHR ''/'' # netmask)) = Inr ip"
    by (simp add: first_split)
  have "truthy p" using assms(3) by (rule getitem_truthy)
  then have "primary_ip_of detail = Inr (PStr ip)"
    using assms(2,3) f by (simp add: primary_ip_of_def)
  then show ?thesis
    using assms(1) f by (simp add: device_primary_ip_def io_bind_def)
qed

text \<open>The statement above at the address \<^verbatim>\<open>10.0.0.1/24\<close>.\<close>

theorem primary_ip_strips_netmask_witness:
  "device_primary_ip (lab masked_server) (PInt 7) [] = (Inr (PStr ''10.0.0.1''), [Device (PInt 7)])
   \<and> first (split CHR ''/'' ''10.0.0.1/24'') = Inr ''10.0.0.1''"
proof -
  let ?detail = "PDict [(PStr ''primary_ip'', PDict [(PStr ''address'', PStr ''10.0.0.1/24'')]),
                   (PStr ''custom_fields'', PDict [])]"
  have 1: "api_call (lab masked_server) (Device (PInt 7)) [] = (Inr ?detail, [Device (PInt 7)])"
    by (simp add: run_defs masked_server_def)
  have 2: "getitem ?detail ''primary_ip'' = Inr (PDict [(PStr ''address'', PStr ''10.0.0.1/24'')])"
    by (simp add: key_eq_def)
  have 3: "getitem (PDict [(PStr ''address'', PStr ''10.0.0.1/24'')]) ''address'' =
             Inr (PStr (''10.0.0.1'' @ CHR ''/'' # ''24''))"
    by (simp add: key_eq_def)
  have 4: "CHR ''/'' \<notin> set ''10.0.0.1''" by simp
  show ?thesis
    using primary_ip_strips_netmask [OF 1 2 3 4] by simp
qed

text \<open>
  C7. Take a device of the listing whose interface listing returns, whenever it is asked,
  interfaces that all have \<^verbatim>\<open>tagged_vlans\<close> null or empty and \<^verbatim>\<open>untagged_vlan\<close> null. When
  \<^verbatim>\<open>_process_devices\<close> returns its records, there is one record per listed device, and in the
  record of this device \<^verbatim>\<open>vlans\<close> is a sequence with one entry per interface of the listing
  read for it, each entry with \<^verbatim>\<open>tagged_vlans = []\<close> and \<^verbatim>\<open>untagged_vlan = null\<close>. The
  hostvars entry the formatter builds from the record carries the same \<^verbatim>\<open>vlans\<close> sequence.
\<close>

theorem no_vlan_data:
  assumes pd: "process_devices self [] = (Inr hashes, cs)"
    and listing: "session self 0 Devices = Some r0" "json_body r0 = Some listing"
      "getitem listing ''results'' = Inr (PList devices)"
    and i: "i < length devices"
    and id: "getitem (devices ! i) ''id'' = Inr device_id"
    and novlan: "\<forall>n. \<exists>r b interfaces.
                   session self n (Interfaces device_id) = Some r \<and> json_body r = Some b \<and>
                   getitem b ''results'' = Inr (PList interfaces) \<and>
                   (\<forall>x \<in> set interfaces.
                      (getitem x ''tagged_vlans'' = Inr PNone \<or>
                       getitem x ''tagged_vlans'' = Inr (PList [])) \<and>
                      getitem x ''untagged_vlan'' = Inr PNone)"
  shows "length hashes = length devices \<and>
         (\<exists>n r b interfaces vlans entry.
            session self n (Interfaces device_id) = Some r \<and> json_body r = Some b \<and>
            getitem b ''results'' = Inr (PList interfaces) \<and>
            getitem (hashes ! i) ''vlans'' = Inr (PList vlans) \<and>
            length vlans = length interfaces \<and>
            (\<forall>v \<in> set vlans. getitem v ''tagged_vlans'' = Inr (PList []) \<and>
                               getitem v ''untagged_vlan'' = Inr PNone) \<and>
            hostvars_entry (hashes ! i) = Inr entry \<and>
            getitem entry ''vlans'' = Inr (PList vlans))"
proof
  have all2: "list_all2 (\<lambda>d h. \<exists>c c'. device_hash self d c = (Inr h, c')) devices hashes"
    by (rule process_devices_records [OF pd listing])
  then show len: "length hashes = length devices"
    by (simp add: list_all2_lengthD)
  from all2 i obtain c c' where "device_hash self (devices ! i) c = (Inr (hashes ! i), c')"
    by (auto simp: list_all2_conv_all_nth)
  from device_hash_Inr [OF this] id obtain c1 vlans c2 device_ip ssh_port nm il where
    vl: "process_interface_vlans self device_id c1 = (Inr vlans, c2)"
    and h: "hashes ! i = PDict [(PStr ''id'', device_id),
                 (PStr ''ansible_ssh_host'', device_ip),
                 (PStr ''ansible_ssh_port'', ssh_port),
                 (PStr ''name'', nm),
                 (PStr ''interfaces'', PList il),
                 (PStr ''vlans'', PList vlans)]"
    by auto
  from process_interface_vlans_Inr [OF vl] obtain r b results seq where
    r: "session self (length c1) (Interfaces device_id) = Some r" "json_body r = Some b"
       "getitem b ''results'' = Inr results" "py_iter results = Inr seq"
    and vm: "list_all2 (\<lambda>x y. vlan_map x = Inr y) seq vlans"
    by blast
  from novlan obtain r' b' interfaces where
    r': "session self (length c1) (Interfaces device_id) = Some r'" "json_body r' = Some b'"
        "getitem b' ''results'' = Inr (PList interfaces)"
    and none: "\<forall>x \<in> set interfaces.
                 (getitem x ''tagged_vlans'' = Inr PNone \<or>
                  getitem x ''tagged_vlans'' = Inr (PList [])) \<and>
                 getitem x ''untagged_vlan'' = Inr PNone"
    by blast
  from r r' have res: "results = PList interfaces" by simp
  with r have seq: "seq = interfaces" by simp
  have lv: "length vlans = length interfaces"
    using vm seq by (simp add: list_all2_lengthD)
  have each: "getitem v ''tagged_vlans'' = Inr (PList []) \<and>
              getitem v ''untagged_vlan'' = Inr PNone" if "v \<in> set vlans" for v
  proof -
    from that obtain k where k: "k < length vlans" "v = vlans ! k"
      by (auto simp: in_set_conv_nth)
    with vm seq have m: "vlan_map (interfaces ! k) = Inr v"
      by (simp add: list_all2_conv_all_nth)
    from k lv have "interfaces ! k \<in> set interfaces" by simp
    with none have
      "getitem (interfaces ! k) ''tagged_vlans'' = Inr PNone \<or>
       getitem (interfaces ! k) ''tagged_vlans'' = Inr (PList [])"
      "getitem (interfaces ! k) ''untagged_vlan'' = Inr PNone"
      by blast+
    from vlan_map_no_vlans_Inr [OF m this] show ?thesis .
  qed
  let ?e = "PDict [(PStr ''ansible_host'', device_ip),
                 (PStr ''ansible_port'', ssh_port),
                 (PStr ''interfaces'', PList il),
                 (PStr ''vlans'', PList vlans)]"
  show "\<exists>n r b interfaces vlans entry.
            session self n (Interfaces device_id) = Some r \<and> json_body r = Some b \<and>
            getitem b ''results'' = Inr (PList interfaces) \<and>
            getitem (hashes ! i) ''vlans'' = Inr (PList vlans) \<and>
            length vlans = length interfaces \<and>
            (\<forall>v \<in> set vlans. getitem v ''tagged_vlans'' = Inr (PList []) \<and>
                               getitem v ''untagged_vlan'' = Inr PNone) \<and>
            hostvars_entry (hashes ! i) = Inr entry \<and>
            getitem entry ''vlans'' = Inr (PList vlans)"
  proof (intro exI conjI)
    show "session self (length c1) (Interfaces device_id) = Some r'" by (rule r'(1))
    show "json_body r' = Some b'" by (rule r'(2))
    show "getitem b' ''results'' = Inr (PList interfaces)" by (rule r'(3))
    show "getitem (hashes ! i) ''vlans'' = Inr (PList vlans)"
      unfolding h by (rule device_hash_fields)
    show "length vlans = length interfaces" by (rule lv)
    show "\<forall>v \<in> set vlans. getitem v ''tagged_vlans'' = Inr (PList []) \<and>
                             getitem v ''untagged_vlan'' = Inr PNone"
      using each by blast
    show "hostvars_entry (hashes ! i) = Inr ?e"
      unfolding h by (rule hostvars_entry_device_hash)
    show "getitem ?e ''vlans'' = Inr (PList vlans)" by (rule hostvars_entry_fields)
  qed
qed

text \<open>The statement above at a device with two interfaces without VLANs.\<close>

theorem no_vlan_data_witness:
  "process_devices (lab bare_server) [] =
     (Inr [PDict [(PStr ''id'', PInt 1), (PStr ''ansible_ssh_host'', PNone),
                  (PStr ''ansible_ssh_port'', PNone), (PStr ''name'', PStr ''sw1''),
                  (PStr ''interfaces'',
                   PList [PDict [(PStr ''interface_name'', PStr ''eth0''),
                                 (PStr ''interface_id'', PInt 10),
                                 (PStr ''ip_address'', PList [])],
                          PDict [(PStr ''interface_name'', PStr ''eth1''),
                                 (PStr ''interface_id'', PInt 11),
                                 (PStr ''ip_address'', PList [])]]),
                  (PStr ''vlans'',
                   PList [PDict [(PStr ''interface'', PStr ''eth0''), (PStr ''int_id'', PInt 10),
                                 (PStr ''untagged_vlan'', PNone),
                                 (PStr ''tagged_vlans'', PList [])],
                          PDict [(PStr ''interface'', PStr ''eth1''), (PStr ''int_id'', PInt 11),
                                 (PStr ''untagged_vlan'', PNone),
                                 (PStr ''tagged_vlans'', PList [])]])]],
      [Devices, Interfaces (PInt 1), Interfaces (PInt 1), Device (PInt 1), Device (PInt 1),
       IpAddresses (PInt 10), IpAddresses (PInt 11)])
   \<and> (\<exists>hashes cs vlans entry.
        process_devices (lab bare_server) [] = (Inr hashes, cs) \<and> length hashes = 1 \<and>
        getitem (hashes ! 0) ''vlans'' = Inr (PList vlans) \<and> length vlans = 2 \<and>
        list_all (\<lambda>v. getitem v ''tagged_vlans'' = Inr (PList []) \<and>
                       getitem v ''untagged_vlan'' = Inr PNone) vlans \<and>
        hostvars_entry (hashes ! 0) = Inr entry \<and>
        getitem entry ''vlans'' = Inr (PList vlans))"
proof -
  let ?devices = "[PDict [(PStr ''id'', PInt 1), (PStr ''name'', PStr ''sw1'')]]"
  let ?listing = "PDict [(PStr ''results'', PList ?devices)]"
  let ?ifs = "[bare_interface 10 ''eth0'' (PList []), bare_interface 11 ''eth1'' PNone]"
  let ?hashes = "[PDict [(PStr ''id'', PInt 1), (PStr ''ansible_ssh_host'', PNone),
                  (PStr ''ansible_ssh_port'', PNone), (PStr ''name'', PStr ''sw1''),
                  (PStr ''interfaces'',
                   PList [PDict [(PStr ''interface_name'', PStr ''eth0''),
                                 (PStr ''interface_id'', PInt 10),
                                 (PStr ''ip_address'', PList [])],
                          PDict [(PStr ''interface_name'', PStr ''eth1''),
                                 (PStr ''interface_id'', PInt 11),
                                 (PStr ''ip_address'', PList [])]]),
                  (PStr ''vlans'',
                   PList [PDict [(PStr ''interface'', PStr ''eth0''), (PStr ''int_id'', PInt 10),
                                 (PStr ''untagged_vlan'', PNone),
                                 (PStr ''tagged_vlans'', PList [])],
                          PDict [(PStr ''interface'', PStr ''eth1''), (PStr ''int_id'', PInt 11),
                                 (PStr ''untagged_vlan'', PNone),
                                 (PStr ''tagged_vlans'', PList [])]])]]"
  let ?cs = "[Devices, Interfaces (PInt 1), Interfaces (PInt 1), Device (PInt 1), Device (PInt 1),
       IpAddresses (PInt 10), IpAddresses (PInt 11)]"
  have 1: "process_devices (lab bare_server) [] = (Inr ?hashes, ?cs)"
    by (simp add: run_defs bare_server_def bare_interface_def)
  have 2: "session (lab bare_server) 0 Devices =
             Some \<lparr>status_code = 200, json_body = Some ?listing\<rparr>"
    by (simp add: lab_def bare_server_def ok_def)
  have 3: "json_body \<lparr>status_code = 200, json_body = Some ?listing\<rparr> = Some ?listing"
    by simp
  have 4: "getitem ?listing ''results'' = Inr (PList ?devices)" by (simp add: key_eq_def)
  have 5: "0 < length ?devices" by simp
  have 6: "getitem (?devices ! 0) ''id'' = Inr (PInt 1)" by (simp add: key_eq_def)
  have 7: "\<forall>n. \<exists>r b interfaces.
                   session (lab bare_server) n (Interfaces (PInt 1)) = Some r \<and>
                   json_body r = Some b \<and>
                   getitem b ''results'' = Inr (PList interfaces) \<and>
                   (\<forall>x \<in> set interfaces.
                      (getitem x ''tagged_vlans'' = Inr PNone \<or>
                       getitem x ''tagged_vlans'' = Inr (PList [])) \<and>
                      getitem x ''untagged_vlan'' = Inr PNone)"
    by (simp add: lab_def bare_server_def ok_def bare_interface_def key_eq_def)
  have l2: "length ?ifs = 2" by simp
  from no_vlan_data [OF 1 2 3 4 5 6 7] obtain n r b interfaces vlans entry where
    a: "length ?hashes = length ?devices"
    and s: "session (lab bare_server) n (Interfaces (PInt 1)) = Some r" "json_body r = Some b"
       "getitem b ''results'' = Inr (PList interfaces)"
    and v: "getitem (?hashes ! 0) ''vlans'' = Inr (PList vlans)"
    and lv: "length vlans = length interfaces"
    and e: "\<forall>v \<in> set vlans. getitem v ''tagged_vlans'' = Inr (PList []) \<and>
                             getitem v ''untagged_vlan'' = Inr PNone"
    and he: "hostvars_entry (?hashes ! 0) = Inr entry" "getitem entry ''vlans'' = Inr (PList vlans)"
    by (elim exE conjE)
  have "interfaces = ?ifs"
    using s by (auto simp: lab_def bare_server_def ok_def key_eq_def)
  with lv have lv': "length vlans = 2" by simp
  have la: "list_all (\<lambda>v. getitem v ''tagged_vlans'' = Inr (PList []) \<and>
                       getitem v ''untagged_vlan'' = Inr PNone) vlans"
    using e by (simp add: list_all_iff)
  have lh: "length ?hashes = 1" by simp
  have "\<exists>hashes cs vlans entry.
        process_devices (lab bare_server) [] = (Inr hashes, cs) \<and> length hashes = 1 \<and>
        getitem (hashes ! 0) ''vlans'' = Inr (PList vlans) \<and> length vlans = 2 \<and>
        list_all (\<lambda>v. getitem v ''tagged_vlans'' = Inr (PList []) \<and>
                       getitem v ''untagged_vlan'' = Inr PNone) vlans \<and>
        hostvars_entry (hashes ! 0) = Inr entry \<and>
        getitem entry ''vlans'' = Inr (PList vlans)"
    using 1 lh v lv' la he by (intro exI conjI)
  with 1 show ?thesis by (intro conjI)
qed

text \<open>
  C8. Without \<^verbatim>\<open>--list\<close>, with or without \<^verbatim>\<open>--host\<close>, the program prints exactly the
  document \<^verbatim>\<open>{"_meta": {"hostvars": {}}}\<close>, raises nothing and makes no API call.
\<close>

theorem no_list_mode_empty_inventory:
  assumes "\<not> arg_list a"
  shows "NetboxInventory self a =
           \<lparr>raised = None,
            stdout = [PDict [(PStr ''_meta'', PDict [(PStr ''hostvars'', PDict [])])]],
            calls = []\<rparr>"
  using assms by (simp add: NetboxInventory_def empty_inventory_def)

text \<open>The statement above for \<^verbatim>\<open>--host sw1\<close> and for no argument at all.\<close>

theorem no_list_mode_empty_inventory_witness:
  "main no_server host_args =
     \<lparr>raised = None,
      stdout = [PDict [(PStr ''_meta'', PDict [(PStr ''hostvars'', PDict [])])]],
      calls = []\<rparr>
   \<and> main no_server \<lparr>arg_list = False, arg_host = None\<rparr> =
     \<lparr>raised = None,
      stdout = [PDict [(PStr ''_meta'', PDict [(PStr ''hostvars'', PDict [])])]],
      calls = []\<rparr>"
proof -
  have h: "\<not> arg_list host_args" by (simp add: host_args_def)
  have n: "\<not> arg_list \<lparr>arg_list = False, arg_host = None\<rparr>" by simp
  show ?thesis
    unfolding main_def
    using no_list_mode_empty_inventory [OF h] no_list_mode_empty_inventory [OF n] by simp
qed

text \<open>
  C9. The specification has every non-success HTTP status of an API call end the run at
  once, with no document printed. The code at a device list answered with status 300 and the
  JSON body \<^verbatim>\<open>{"results": []}\<close>: the only check, \<^verbatim>\<open>raise_for_status\<close>, lets the status pass,
  the body is read like a success, and the run raises nothing and prints an inventory.
  The comment above the check says \<^verbatim>\<open>Exit if return code not 200\<close>.
\<close>

theorem status_300_read_as_success:
  "main multiple_choices_server list_args =
     \<lparr>raised = None,
      stdout =
        [PDict [(PStr ''all'', PDict [(PStr ''hosts'', PList []), (PStr ''vars'', all_vars)]),
                (PStr ''_meta'', PDict [(PStr ''hostvars'', PDict [])])]],
      calls = [Devices]\<rparr>"
  by (simp add: run_defs multiple_choices_server_def)

text \<open>
  What the check does achieve: in list mode, when the server answers any call of the run
  with an HTTP error status (400 to 599, the statuses \<^verbatim>\<open>raise_for_status\<close> rejects), the run
  ends with \<^verbatim>\<open>HTTPError\<close>, that call is the last one made, and nothing is printed.
\<close>

theorem http_error_fails_run:
  assumes "arg_list a"
    and "k < length (calls (NetboxInventory self a))"
    and "session self k (calls (NetboxInventory self a) ! k) = Some r"
    and "400 \<le> status_code r" and "status_code r < 600"
  shows "raised (NetboxInventory self a) = Some HTTPError \<and>
         stdout (NetboxInventory self a) = [] \<and>
         Suc k = length (calls (NetboxInventory self a))"
proof -
  let ?p = "io_bind (process_devices self)
              (\<lambda>devices. io_lift (create_inventory_output devices))"
  from fail_fast_list_mode [of self] obtain new where
    new: "snd (?p []) = [] @ new"
    and err: "\<forall>k < length new. error_reply (session self (length ([] :: endpoint list) + k) (new ! k)) \<longrightarrow>
                Suc k = length new \<and> fst (?p []) = Inl HTTPError"
    unfolding fail_fast_def by blast
  have c: "calls (NetboxInventory self a) = new"
    using assms(1) new by (cases "?p []") (auto simp: NetboxInventory_def split: sum.splits)
  have "error_reply (session self k (new ! k))"
    using assms(3,4,5) c by (simp add: error_reply_def)
  with err assms(2) c have "Suc k = length new" and "fst (?p []) = Inl HTTPError"
    by auto
  then show ?thesis
    using assms(1) c by (cases "?p []") (auto simp: NetboxInventory_def split: sum.splits)
qed

text \<open>
  The statement above at a server that lists two devices and answers the first interface
  listing with status 503.
\<close>

theorem http_error_fails_run_witness:
  "main failing_interfaces_server list_args =
     \<lparr>raised = Some HTTPError, stdout = [], calls = [Devices, Interfaces (PInt 1)]\<rparr>
   \<and> raised (main failing_interfaces_server list_args) = Some HTTPError
   \<and> stdout (main failing_interfaces_server list_args) = []
   \<and> Suc 1 = length (calls (main failing_interfaces_server list_args))"
proof -
  have run: "main failing_interfaces_server list_args =
     \<lparr>raised = Some HTTPError, stdout = [], calls = [Devices, Interfaces (PInt 1)]\<rparr>"
    by (simp add: run_defs failing_interfaces_server_def)
  let ?r = "\<lparr>status_code = 503, json_body = Some (PDict [(PStr ''results'', PList [])])\<rparr>"
  have 1: "arg_list list_args" by (simp add: list_args_def)
  have 2: "1 < length (calls (NetboxInventory (lab failing_interfaces_server) list_args))"
    using run by (simp add: main_def lab_def)
  have 3: "session (lab failing_interfaces_server) 1
             (calls (NetboxInventory (lab failing_interfaces_server) list_args) ! 1) = Some ?r"
    using run by (simp add: main_def lab_def failing_interfaces_server_def)
  have 4: "400 \<le> status_code ?r" and 5: "status_code ?r < 600" by simp_all
  from http_error_fails_run [OF 1 2 3 4 5] run show ?thesis
    by (simp add: main_def lab_def)
qed

text \<open>
  C10. Suppose the server answers the interface listing of a device the same way each time
  it is asked. Then in the document of a list-mode run every entry of \<^verbatim>\<open>_meta.hostvars\<close> has
  \<^verbatim>\<open>interfaces\<close> and \<^verbatim>\<open>vlans\<close> of one length, and at every index the \<^verbatim>\<open>interface_id\<close> of the
  one is the \<^verbatim>\<open>int_id\<close> of the other and the \<^verbatim>\<open>interface_name\<close> of the one is the
  \<^verbatim>\<open>interface\<close> of the other.
\<close>

theorem interfaces_and_vlans_aligned:
  assumes list: "arg_list a"
    and printed: "stdout (NetboxInventory self a) = [doc]"
    and det: "\<forall>n m device_id.
                session self n (Interfaces device_id) = session self m (Interfaces device_id)"
  shows "\<exists>hostvars.
           path doc [''_meta'', ''hostvars''] = Inr (PDict hostvars) \<and>
           (\<forall>(name, entry) \<in> set hostvars.
              \<exists>interfaces vlans.
                getitem entry ''interfaces'' = Inr (PList interfaces) \<and>
                getitem entry ''vlans'' = Inr (PList vlans) \<and>
                length interfaces = length vlans \<and>
                (\<forall>i < length interfaces. \<exists>int_id int_name.
                   getitem (interfaces ! i) ''interface_id'' = Inr int_id \<and>
                   getitem (vlans ! i) ''int_id'' = Inr int_id \<and>
                   getitem (interfaces ! i) ''interface_name'' = Inr int_name \<and>
                   getitem (vlans ! i) ''interface'' = Inr int_name))"
proof -
  from list_mode_printed [OF list printed] obtain hashes cs where
    pd: "process_devices self [] = (Inr hashes, cs)"
    and out: "create_inventory_output hashes = Inr doc"
    by blast
  from process_devices_Inr [OF pd] obtain devices where
    all2: "list_all2 (\<lambda>d h. \<exists>c c'. device_hash self d c = (Inr h, c')) devices hashes"
    by blast
  from out obtain ps where
    ps: "list_all2 (\<lambda>d p. getitem d ''name'' = Inr (fst p) \<and> hashable (fst p) \<and>
                            hostvars_entry d = Inr (snd p)) hashes ps"
    and doc: "doc = PDict [(PStr ''all'',
                     PDict [(PStr ''hosts'', PList (map fst ps)), (PStr ''vars'', all_vars)]),
                   (PStr ''_meta'', PDict [(PStr ''hostvars'',
                      PDict (fold (\<lambda>p h. dict_set h (fst p) (snd p)) ps []))])]"
    unfolding create_inventory_output_Inr by blast
  let ?hv = "fold (\<lambda>p h. dict_set h (fst p) (snd p)) ps []"
  have al: "aligned entry" if "(name, entry) \<in> set ?hv" for name entry
  proof -
    from in_fold_dict_set [OF that] have "entry \<in> snd ` set ps" by simp
    then obtain j where j: "j < length ps" "entry = snd (ps ! j)"
      by (auto simp: in_set_conv_nth)
    from ps j have e: "hostvars_entry (hashes ! j) = Inr entry" and jh: "j < length hashes"
      by (simp_all add: list_all2_conv_all_nth)
    from all2 jh obtain d c c' where "device_hash self d c = (Inr (hashes ! j), c')"
      by (auto simp: list_all2_conv_all_nth)
    from device_hash_aligned [OF det this] e show ?thesis by auto
  qed
  show ?thesis
  proof (intro exI conjI)
    show "path doc [''_meta'', ''hostvars''] = Inr (PDict ?hv)"
      unfolding doc by (rule path_meta_hostvars)
    show "\<forall>(name, entry) \<in> set ?hv.
              \<exists>interfaces vlans.
                getitem entry ''interfaces'' = Inr (PList interfaces) \<and>
                getitem entry ''vlans'' = Inr (PList vlans) \<and>
                length interfaces = length vlans \<and>
                (\<forall>i < length interfaces. \<exists>int_id int_name.
                   getitem (interfaces ! i) ''interface_id'' = Inr int_id \<and>
                   getitem (vlans ! i) ''int_id'' = Inr int_id \<and>
                   getitem (interfaces ! i) ''interface_name'' = Inr int_name \<and>
                   getitem (vlans ! i) ''interface'' = Inr int_name)"
      using al unfolding aligned_def by blast
  qed
qed

text \<open>The statement above at the server of the end-to-end example.\<close>

theorem interfaces_and_vlans_aligned_witness:
  "\<exists>doc hostvars.
     stdout (main sw1_server list_args) = [doc] \<and>
     path doc [''_meta'', ''hostvars''] = Inr (PDict hostvars) \<and>
     (\<forall>(name, entry) \<in> set hostvars.
        \<exists>interfaces vlans.
          getitem entry ''interfaces'' = Inr (PList interfaces) \<and>
          getitem entry ''vlans'' = Inr (PList vlans) \<and>
          length interfaces = length vlans \<and>
          (\<forall>i < length interfaces. \<exists>int_id int_name.
             getitem (interfaces ! i) ''interface_id'' = Inr int_id \<and>
             getitem (vlans ! i) ''int_id'' = Inr int_id \<and>
             getitem (interfaces ! i) ''interface_name'' = Inr int_name \<and>
             getitem (vlans ! i) ''interface'' = Inr int_name))"
proof -
  have "\<exists>doc. stdout (main sw1_server list_args) = [doc]"
    by (simp add: run_defs sw1_server_def)
  then obtain doc where d: "stdout (main sw1_server list_args) = [doc]" ..
  have 1: "arg_list list_args" by (simp add: list_args_def)
  have 2: "stdout (NetboxInventory (lab sw1_server) list_args) = [doc]"
    using d by (simp add: main_def lab_def)
  have 3: "\<forall>n m device_id. session (lab sw1_server) n (Interfaces device_id) =
                            session (lab sw1_server) m (Interfaces device_id)"
    by (simp add: lab_def sw1_server_def)
  show ?thesis
    using d interfaces_and_vlans_aligned [OF 1 2 3]
    by (elim exE conjE, intro exI conjI)
qed

end
